theory Spec2Isabelle
  imports Complex_Main "HOL-Library.Sublist" "HOL-Library.Char_ord" "HOL-Library.List_Lexorder"
    "HOL-Library.AList"
begin

chapter \<open>The model\<close>

section \<open>Synchronized Stream Server: playback position (web\_player.py)\<close>

text \<open>
  An item of the web player's playlist is a dict with the keys \<open>type\<close>, \<open>url\<close>,
  \<open>name\<close> and, for slides (and for every item of the sync playlist), \<open>duration\<close>.
  The key \<open>duration\<close> may be absent: the code reads it with \<open>item.get('duration', 0)\<close>.
  Durations and elapsed time are modelled as Python integers.
\<close>

record web_item =
  item_type :: string
  item_url :: string
  item_name :: string
  item_duration :: "int option"







section \<open>JSON values and the ordering file\<close>

text \<open>
  What \<open>json.loads\<close> returns. A Python float is a finite value (a rational here),
  a NaN or an infinity; Python's \<open>json\<close> reads all of them. A dict is the list of its
  items, looked up with \<open>map_of\<close>.
\<close>

datatype pyfloat = Finite rat | NaN | PosInf | NegInf

datatype json =
    JNull
  | JBool bool
  | JInt int
  | JFloat pyfloat
  | JStr string
  | JList "json list"
  | JObj "(string \<times> json) list"

text \<open>The content of a JSON file on disk: text that \<open>json.loads\<close> rejects, or a value.\<close>

datatype file_content = Unparseable | Json json

text \<open>Python truthiness, as used by \<open>if name:\<close>, \<open>a or b\<close> and \<open>if not raw:\<close>.\<close>

fun truthy :: "json \<Rightarrow> bool" where
  "truthy JNull = False"
| "truthy (JBool b) = b"
| "truthy (JInt n) = (n \<noteq> 0)"
| "truthy (JFloat f) = (f \<noteq> Finite 0)"
| "truthy (JStr s) = (s \<noteq> [])"
| "truthy (JList xs) = (xs \<noteq> [])"
| "truthy (JObj kvs) = (kvs \<noteq> [])"

text \<open>\<open>d.get(k)\<close>: the value, or \<open>None\<close> when the key is absent.\<close>

definition dict_get :: "(string \<times> json) list \<Rightarrow> string \<Rightarrow> json" where
  "dict_get d k = (case map_of d k of None \<Rightarrow> JNull | Some v \<Rightarrow> v)"

text \<open>\<open>d.get(k, default)\<close>.\<close>

definition dict_get_default :: "(string \<times> json) list \<Rightarrow> string \<Rightarrow> json \<Rightarrow> json" where
  "dict_get_default d k dflt = (case map_of d k of None \<Rightarrow> dflt | Some v \<Rightarrow> v)"

definition py_or :: "json \<Rightarrow> json \<Rightarrow> json" where
  "py_or a b = (if truthy a then a else b)"

text \<open>
  Python's \<open>int(v)\<close>; \<open>None\<close> when it raises (TypeError, ValueError, OverflowError).
  A float is truncated towards zero. How \<open>int\<close> reads a string is the interpreter's
  business and a parameter here.
\<close>

fun py_int :: "(string \<Rightarrow> int option) \<Rightarrow> json \<Rightarrow> int option" where
  "py_int str_to_int JNull = None"
| "py_int str_to_int (JBool b) = Some (if b then 1 else 0)"
| "py_int str_to_int (JInt n) = Some n"
| "py_int str_to_int (JFloat (Finite r)) = Some (if 0 \<le> r then \<lfloor>r\<rfloor> else \<lceil>r\<rceil>)"
| "py_int str_to_int (JFloat NaN) = None"
| "py_int str_to_int (JFloat PosInf) = None"
| "py_int str_to_int (JFloat NegInf) = None"
| "py_int str_to_int (JStr s) = str_to_int s"
| "py_int str_to_int (JList xs) = None"
| "py_int str_to_int (JObj kvs) = None"

text \<open>A normalized playlist entry: the dict \<open>{'name': ..., 'repeats': ...}\<close>.\<close>

record entry =
  entry_name :: json
  entry_repeats :: int

text \<open>
  The body of the normalization loop, the same text in \<open>player.py\<close> (lines 169-179),
  \<open>web_player.py\<close> (lines 82-92) and \<open>dashboard.py\<close> (lines 171-181): what one raw
  entry appends to the output.
\<close>

definition normalize_entry :: "(string \<Rightarrow> int option) \<Rightarrow> json \<Rightarrow> entry list" where
  "normalize_entry str_to_int raw_entry =
     (case raw_entry of
        JStr s \<Rightarrow> [\<lparr>entry_name = JStr s, entry_repeats = 1\<rparr>]
      | JObj d \<Rightarrow>
          (let name = py_or (dict_get d ''name'') (dict_get d ''filename'');
               repeats = (case py_int str_to_int (dict_get_default d ''repeats'' (JInt 1)) of
                            None \<Rightarrow> 1
                          | Some n \<Rightarrow> n)
           in if truthy name then [\<lparr>entry_name = name, entry_repeats = max 1 repeats\<rparr>] else [])
      | _ \<Rightarrow> [])"

primrec normalize_loop :: "(string \<Rightarrow> int option) \<Rightarrow> json list \<Rightarrow> entry list" where
  "normalize_loop str_to_int [] = []"
| "normalize_loop str_to_int (raw_entry # rest) =
     normalize_entry str_to_int raw_entry @ normalize_loop str_to_int rest"

text \<open>
  \<open>player.py\<close> and \<open>web_player.py\<close>: \<open>selected\<close>, from the ordering file. A missing
  file, a file that does not parse and a top-level value that is not a list all leave
  \<open>selected\<close> empty.
\<close>

definition selected_entries :: "(string \<Rightarrow> int option) \<Rightarrow> file_content option \<Rightarrow> entry list" where
  "selected_entries str_to_int playlist_json =
     (case playlist_json of
        None \<Rightarrow> []
      | Some Unparseable \<Rightarrow> []
      | Some (Json data) \<Rightarrow>
          (case data of JList entries \<Rightarrow> normalize_loop str_to_int entries | _ \<Rightarrow> []))"

text \<open>\<open>dashboard.py\<close>: \<open>read_playlist\<close> and \<open>normalize_playlist_to_objects\<close>.\<close>

definition read_playlist :: "file_content option \<Rightarrow> json" where
  "read_playlist playlist_json =
     (case playlist_json of
        None \<Rightarrow> JList []
      | Some Unparseable \<Rightarrow> JList []
      | Some (Json data) \<Rightarrow> data)"

definition normalize_playlist_to_objects :: "(string \<Rightarrow> int option) \<Rightarrow> json \<Rightarrow> entry list" where
  "normalize_playlist_to_objects str_to_int raw =
     (if \<not> truthy raw then []
      else (case raw of JList items \<Rightarrow> normalize_loop str_to_int items | _ \<Rightarrow> []))"

section \<open>File names\<close>

text \<open>\<open>str.lower\<close> and \<open>str.upper\<close> on the ASCII letters, which is all the extensions hold.\<close>

definition ascii_lower :: "char \<Rightarrow> char" where
  "ascii_lower c =
     (case map_of (zip ''ABCDEFGHIJKLMNOPQRSTUVWXYZ'' ''abcdefghijklmnopqrstuvwxyz'') c of
        None \<Rightarrow> c
      | Some l \<Rightarrow> l)"

definition ascii_upper :: "char \<Rightarrow> char" where
  "ascii_upper c =
     (case map_of (zip ''abcdefghijklmnopqrstuvwxyz'' ''ABCDEFGHIJKLMNOPQRSTUVWXYZ'') c of
        None \<Rightarrow> c
      | Some u \<Rightarrow> u)"

definition lower :: "string \<Rightarrow> string" where
  "lower s = map ascii_lower s"

definition upper :: "string \<Rightarrow> string" where
  "upper s = map ascii_upper s"

text \<open>
  \<open>pathlib\<close>'s \<open>suffix\<close> and \<open>stem\<close> of a file name: the name is cut at its last dot,
  unless that dot is the first or the last character or there is none.
\<close>

definition py_suffix :: "string \<Rightarrow> string" where
  "py_suffix name =
     (let r = rev name;
          ext = takeWhile (\<lambda>c. c \<noteq> CHR ''.'') r;
          rest = dropWhile (\<lambda>c. c \<noteq> CHR ''.'') r
      in if rest = [] \<or> tl rest = [] \<or> ext = [] then [] else CHR ''.'' # rev ext)"

definition py_stem :: "string \<Rightarrow> string" where
  "py_stem name =
     (let r = rev name;
          ext = takeWhile (\<lambda>c. c \<noteq> CHR ''.'') r;
          rest = dropWhile (\<lambda>c. c \<noteq> CHR ''.'') r
      in if rest = [] \<or> tl rest = [] \<or> ext = [] then name else rev (tl rest))"

text \<open>
  The final component of a path given as text (\<open>Path(name).name\<close>): empty components
  and \<open>.\<close> are dropped, as \<open>pathlib\<close> does on POSIX.
\<close>

fun split_on :: "char \<Rightarrow> string \<Rightarrow> string list" where
  "split_on sep [] = [[]]"
| "split_on sep (c # cs) =
     (if c = sep then [] # split_on sep cs
      else (case split_on sep cs of
              [] \<Rightarrow> [[c]]
            | w # ws \<Rightarrow> (c # w) # ws))"

definition py_name :: "string \<Rightarrow> string" where
  "py_name p =
     (let parts = filter (\<lambda>w. w \<noteq> [] \<and> w \<noteq> ''.'') (split_on CHR ''/'' p)
      in if parts = [] then [] else last parts)"

definition VIDEO_FORMATS :: "string list" where
  "VIDEO_FORMATS = [''.mp4'', ''.avi'', ''.mov'', ''.mkv'', ''.webm'']"

definition PPT_FORMATS :: "string list" where
  "PPT_FORMATS = [''.pptx'', ''.ppt'']"

definition PDF_FORMATS :: "string list" where
  "PDF_FORMATS = [''.pdf'']"

definition SLIDE_DURATION :: int where
  "SLIDE_DURATION = 10"

definition VIDEOS_DIR :: string where
  "VIDEOS_DIR = ''~/signage/content/videos''"

definition PRESENTATIONS_DIR :: string where
  "PRESENTATIONS_DIR = ''~/signage/content/presentations''"

definition SLIDES_CACHE_DIR :: string where
  "SLIDES_CACHE_DIR = ''~/signage/cache/slides''"

definition joinpath :: "string \<Rightarrow> string \<Rightarrow> string" where
  "joinpath d n = d @ ''/'' @ n"

text \<open>\<open>dir.glob("*" + ext)\<close> on a listing, and the pattern \<open>slide_*.png\<close>.\<close>

definition glob_ext :: "string \<Rightarrow> string list \<Rightarrow> string list" where
  "glob_ext ext names = filter (\<lambda>n. suffix ext n) names"

definition glob_slides :: "string list \<Rightarrow> string list" where
  "glob_slides names =
     filter (\<lambda>n. prefix ''slide_'' n \<and> suffix ''.png'' n \<and> 10 \<le> length n) names"

section \<open>The file system the two players and the dashboard share\<close>

text \<open>
  A content directory is the list of the names in it (\<open>None\<close>: the directory is
  missing). The slide cache is the list of its subdirectories, each with the names of its
  files. The three JSON files are absent or have a content. \<open>playlist_m3u\<close> is the
  playlist file VLC reads: one record per item. \<open>tool_runs\<close> is the list of the external
  commands run so far. Writing and removing the program's own files is taken to succeed;
  what can fail is an external tool, a signal and the start of VLC.
\<close>

record m3u_entry =
  extinf :: int
  title :: string
  location :: string

record fs =
  videos_dir :: "string list option"
  presentations_dir :: "string list option"
  slides_cache :: "(string \<times> string list) list"
  playlist_json :: "file_content option"
  signage_json :: "file_content option"
  web_json :: "file_content option"
  playlist_m3u :: "m3u_entry list option"
  tool_runs :: "string list list"

definition listing :: "string list option \<Rightarrow> string list" where
  "listing d = (case d of None \<Rightarrow> [] | Some names \<Rightarrow> names)"

definition cache_listing :: "fs \<Rightarrow> string \<Rightarrow> string list" where
  "cache_listing s stem = (case map_of (slides_cache s) stem of None \<Rightarrow> [] | Some names \<Rightarrow> names)"

section \<open>Synchronized Stream Server: command relay (web\_player.py)\<close>

text \<open>
  \<open>api_command\<close>: the response and the file system after the request. The response is
  \<open>{'ok': True, 'command': data}\<close>, with \<open>{}\<close> for a file that does not parse and
  \<open>None\<close> when there is no file.
\<close>

definition command_response :: "json \<Rightarrow> json" where
  "command_response data = JObj [(''ok'', JBool True), (''command'', data)]"

definition api_command :: "fs \<Rightarrow> json \<times> fs" where
  "api_command s =
     (case web_json s of
        None \<Rightarrow> (command_response JNull, s)
      | Some Unparseable \<Rightarrow> (command_response (JObj []), s)
      | Some (Json data) \<Rightarrow> (command_response data, s))"

text \<open>\<open>n\<close> requests to \<open>/api/command\<close>, one after the other, from any clients.\<close>

fun poll_command :: "nat \<Rightarrow> fs \<Rightarrow> json list \<times> fs" where
  "poll_command 0 s = ([], s)"
| "poll_command (Suc n) s =
     (let (r, s1) = api_command s;
          (rs, s2) = poll_command n s1
      in (r # rs, s2))"

section \<open>Conversion Cache (presentation\_converter.py and the copy in player.py)\<close>

datatype py_error =
    CalledProcessError
  | TimeoutExpired
  | FileNotFoundError
  | TypeError
  | AttributeError
  | OSError

text \<open>
  An external tool is outside the program: it is a parameter, a function from the number
  of commands run before, the command line and the listing of the output directory to how
  the run ended and the listing it left. \<open>ToolMissing\<close> is the executable not being
  found; nothing runs then.
\<close>

datatype exit_status = Exit0 | ExitNonzero | Timeout | ToolMissing

type_synonym tool = "nat \<Rightarrow> string list \<Rightarrow> string list \<Rightarrow> exit_status \<times> string list"

text \<open>\<open>subprocess.run(cmd, check=True, timeout=...)\<close> writing into the cache directory \<open>stem\<close>.\<close>

definition subprocess_run :: "tool \<Rightarrow> string list \<Rightarrow> string \<Rightarrow> fs \<Rightarrow> (py_error + unit) \<times> fs" where
  "subprocess_run run cmd stem s =
     (let (status, names) = run (length (tool_runs s)) cmd (cache_listing s stem);
          s1 = s\<lparr>slides_cache := AList.update stem names (slides_cache s),
                 tool_runs := tool_runs s @ [cmd]\<rparr>
      in case status of
           Exit0 \<Rightarrow> (Inr (), s1)
         | ExitNonzero \<Rightarrow> (Inl CalledProcessError, s1)
         | Timeout \<Rightarrow> (Inl TimeoutExpired, s1)
         | ToolMissing \<Rightarrow> (Inl FileNotFoundError, s))"

text \<open>The cache entry of a presentation is the directory named by its stem.\<close>

definition get_cache_path :: "string \<Rightarrow> string" where
  "get_cache_path presentation_file = py_stem presentation_file"

definition is_cached :: "fs \<Rightarrow> string \<Rightarrow> bool" where
  "is_cached s presentation_file =
     (case map_of (slides_cache s) (get_cache_path presentation_file) of
        None \<Rightarrow> False
      | Some names \<Rightarrow> 0 < length (glob_slides names))"

text \<open>\<open>cache_path.mkdir(parents=True, exist_ok=True)\<close>.\<close>

definition mkdir_cache :: "string \<Rightarrow> fs \<Rightarrow> fs" where
  "mkdir_cache stem s =
     (case map_of (slides_cache s) stem of
        None \<Rightarrow> s\<lparr>slides_cache := slides_cache s @ [(stem, [])]\<rparr>
      | Some names \<Rightarrow> s)"

definition libreoffice_cmd :: "string \<Rightarrow> string \<Rightarrow> string list" where
  "libreoffice_cmd pptx_file output_dir =
     [''libreoffice'', ''--headless'', ''--convert-to'', ''pdf'', ''--outdir'',
      joinpath SLIDES_CACHE_DIR output_dir, joinpath PRESENTATIONS_DIR pptx_file]"

definition convert_cmd :: "string \<Rightarrow> string \<Rightarrow> string list" where
  "convert_cmd pdf_file output_dir =
     [''convert'', ''-density'', ''150'', ''-quality'', ''90'', pdf_file,
      joinpath (joinpath SLIDES_CACHE_DIR output_dir) ''slide_%03d.png'']"

definition convert_pptx_to_pdf :: "tool \<Rightarrow> string \<Rightarrow> string \<Rightarrow> fs \<Rightarrow> (py_error + string) \<times> fs" where
  "convert_pptx_to_pdf run pptx_file output_dir s =
     (let cmd = libreoffice_cmd pptx_file output_dir;
          (r, s1) = subprocess_run run cmd output_dir s
      in case r of
           Inl e \<Rightarrow> (Inl e, s1)
         | Inr u \<Rightarrow>
             (let generated_pdf = py_stem pptx_file @ ''.pdf''
              in if generated_pdf \<in> set (cache_listing s1 output_dir)
                 then (Inr generated_pdf, s1)
                 else (Inl FileNotFoundError, s1)))"

definition convert_pdf_to_png :: "tool \<Rightarrow> string \<Rightarrow> string \<Rightarrow> fs \<Rightarrow> (py_error + string list) \<times> fs" where
  "convert_pdf_to_png run pdf_file output_dir s =
     (let cmd = convert_cmd pdf_file output_dir;
          (r, s1) = subprocess_run run cmd output_dir s
      in case r of
           Inl e \<Rightarrow> (Inl e, s1)
         | Inr u \<Rightarrow>
             (let png_files = sort (glob_slides (cache_listing s1 output_dir))
              in if png_files = [] then (Inl FileNotFoundError, s1)
                 else (Inr png_files, s1)))"

text \<open>\<open>pdf_file.unlink()\<close>: FileNotFoundError when the file is not there.\<close>

definition unlink_cached :: "string \<Rightarrow> string \<Rightarrow> fs \<Rightarrow> (py_error + unit) \<times> fs" where
  "unlink_cached stem name s =
     (if name \<in> set (cache_listing s stem)
      then (Inr (), s\<lparr>slides_cache :=
              AList.update stem (removeAll name (cache_listing s stem)) (slides_cache s)\<rparr>)
      else (Inl FileNotFoundError, s))"

text \<open>
  \<open>convert_pptx\<close> of \<open>presentation_converter.py\<close>: a failing \<open>unlink\<close> is ignored. The
  \<open>except Exception\<close> turns every error into the empty list.
\<close>

definition convert_pptx :: "tool \<Rightarrow> string \<Rightarrow> fs \<Rightarrow> string list \<times> fs" where
  "convert_pptx run pptx_file s =
     (let cache_path = get_cache_path pptx_file;
          s0 = mkdir_cache cache_path s;
          (r1, s1) = convert_pptx_to_pdf run pptx_file cache_path s0
      in case r1 of
           Inl e \<Rightarrow> ([], s1)
         | Inr pdf_file \<Rightarrow>
             (let (r2, s2) = convert_pdf_to_png run
                    (joinpath (joinpath SLIDES_CACHE_DIR cache_path) pdf_file) cache_path s1
              in case r2 of
                   Inl e \<Rightarrow> ([], s2)
                 | Inr png_files \<Rightarrow>
                     (let (r3, s3) = unlink_cached cache_path pdf_file s2
                      in (png_files, s3))))"

text \<open>\<open>convert_pptx\<close> of \<open>player.py\<close>: the \<open>unlink\<close> is inside the \<open>try\<close>.\<close>

definition player_convert_pptx :: "tool \<Rightarrow> string \<Rightarrow> fs \<Rightarrow> string list \<times> fs" where
  "player_convert_pptx run pptx_file s =
     (let cache_path = get_cache_path pptx_file;
          s0 = mkdir_cache cache_path s;
          (r1, s1) = convert_pptx_to_pdf run pptx_file cache_path s0
      in case r1 of
           Inl e \<Rightarrow> ([], s1)
         | Inr pdf_file \<Rightarrow>
             (let (r2, s2) = convert_pdf_to_png run
                    (joinpath (joinpath SLIDES_CACHE_DIR cache_path) pdf_file) cache_path s1
              in case r2 of
                   Inl e \<Rightarrow> ([], s2)
                 | Inr png_files \<Rightarrow>
                     (let (r3, s3) = unlink_cached cache_path pdf_file s2
                      in case r3 of
                           Inl e \<Rightarrow> ([], s3)
                         | Inr u \<Rightarrow> (png_files, s3))))"

definition convert_pdf :: "tool \<Rightarrow> string \<Rightarrow> fs \<Rightarrow> string list \<times> fs" where
  "convert_pdf run pdf_file s =
     (let cache_path = get_cache_path pdf_file;
          s0 = mkdir_cache cache_path s;
          (r, s1) = convert_pdf_to_png run (joinpath PRESENTATIONS_DIR pdf_file) cache_path s0
      in case r of
           Inl e \<Rightarrow> ([], s1)
         | Inr png_files \<Rightarrow> (png_files, s1))"

definition convert_presentation :: "tool \<Rightarrow> string \<Rightarrow> fs \<Rightarrow> string list \<times> fs" where
  "convert_presentation run presentation_file s =
     (let ext = lower (py_suffix presentation_file)
      in if ext \<in> set [''.pptx'', ''.ppt''] then convert_pptx run presentation_file s
         else if ext \<in> set [''.pdf''] then convert_pdf run presentation_file s
         else ([], s))"

definition player_convert_presentation :: "tool \<Rightarrow> string \<Rightarrow> fs \<Rightarrow> string list \<times> fs" where
  "player_convert_presentation run presentation_file s =
     (let ext = lower (py_suffix presentation_file)
      in if ext \<in> set PPT_FORMATS then player_convert_pptx run presentation_file s
         else if ext \<in> set PDF_FORMATS then convert_pdf run presentation_file s
         else ([], s))"

text \<open>
  \<open>get_slides\<close> (\<open>player.py\<close>): what the conversion returns is dropped; the result is
  the sorted slide images of the cache directory, as paths.
\<close>

definition get_slides :: "tool \<Rightarrow> string \<Rightarrow> fs \<Rightarrow> string list \<times> fs" where
  "get_slides run presentation_file s =
     (let s1 = (if \<not> is_cached s presentation_file
                then snd (player_convert_presentation run presentation_file s)
                else s);
          cache_path = get_cache_path presentation_file
      in (map (joinpath (joinpath SLIDES_CACHE_DIR cache_path))
            (sort (glob_slides (cache_listing s1 cache_path))), s1))"

text \<open>An installation with empty content directories and none of the files written yet.\<close>

definition blank_fs :: fs where
  "blank_fs =
     \<lparr>videos_dir = Some [], presentations_dir = Some [], slides_cache = [],
      playlist_json = None, signage_json = None, web_json = None,
      playlist_m3u = None, tool_runs = []\<rparr>"

text \<open>
  Three behaviours of the external tools, for concrete runs: a tool whose first run exits
  nonzero leaving nothing and whose later runs write one slide; the pair LibreOffice
  (first command, writes the PDF) and ImageMagick (second command) where ImageMagick hits
  the timeout after writing its first page; and tools that work.
\<close>

definition failing_once_tool :: tool where
  "failing_once_tool n cmd names =
     (if n = 0 then (ExitNonzero, names) else (Exit0, names @ [''slide_000.png'']))"

definition timeout_midway_tool :: tool where
  "timeout_midway_tool n cmd names =
     (if hd cmd = ''libreoffice'' then (Exit0, names @ [''deck.pdf''])
      else (Timeout, names @ [''slide_000.png'']))"

definition working_tool :: tool where
  "working_tool n cmd names =
     (if hd cmd = ''libreoffice'' then (Exit0, names @ [''deck.pdf''])
      else (Exit0, names @ [''slide_000.png'', ''slide_001.png'']))"

text \<open>The file system after a command ran in the cache directory \<open>stem\<close> and left \<open>names\<close> there.\<close>

definition after_run :: "fs \<Rightarrow> string \<Rightarrow> string list \<Rightarrow> string list \<Rightarrow> fs" where
  "after_run s stem names cmd =
     s\<lparr>slides_cache := AList.update stem names (slides_cache s),
       tool_runs := tool_runs s @ [cmd]\<rparr>"

section \<open>Content Resolver of the local player (player.py)\<close>

datatype item_kind = Video | Slide

record player_item =
  pi_type :: item_kind
  pi_path :: string
  pi_duration :: int

text \<open>
  \<open>get_video_files\<close> and \<open>get_presentation_files\<close>: for every extension the names
  that end with it and the names that end with its upper case, sorted.
\<close>

definition glob_formats :: "string list \<Rightarrow> string list \<Rightarrow> string list" where
  "glob_formats formats names =
     concat (map (\<lambda>ext. glob_ext ext names @ glob_ext (upper ext) names) formats)"

definition get_video_files :: "fs \<Rightarrow> string list" where
  "get_video_files s = sort (glob_formats VIDEO_FORMATS (listing (videos_dir s)))"

definition get_presentation_files :: "fs \<Rightarrow> string list" where
  "get_presentation_files s =
     sort (glob_formats (PPT_FORMATS @ PDF_FORMATS) (listing (presentations_dir s)))"

text \<open>
  \<open>name in file_map\<close> followed by \<open>file_map[name]\<close>, for a dict keyed by file names:
  a list or a dict as \<open>name\<close> cannot be hashed (TypeError); a number, a boolean or
  \<open>None\<close> is no key of the dict.
\<close>

fun map_lookup :: "json \<Rightarrow> string list \<Rightarrow> py_error + string option" where
  "map_lookup (JStr n) keys = Inr (if n \<in> set keys then Some n else None)"
| "map_lookup (JList xs) keys = Inl TypeError"
| "map_lookup (JObj kvs) keys = Inl TypeError"
| "map_lookup v keys = Inr None"

definition video_item :: "string \<Rightarrow> player_item" where
  "video_item n = \<lparr>pi_type = Video, pi_path = joinpath VIDEOS_DIR n, pi_duration = - 1\<rparr>"

definition slide_item :: "string \<Rightarrow> player_item" where
  "slide_item slide = \<lparr>pi_type = Slide, pi_path = slide, pi_duration = SLIDE_DURATION\<rparr>"

text \<open>\<open>for _ in range(repeats): playlist_items.append(video)\<close>.\<close>

fun repeat_video :: "nat \<Rightarrow> player_item \<Rightarrow> player_item list \<Rightarrow> player_item list" where
  "repeat_video 0 v playlist_items = playlist_items"
| "repeat_video (Suc n) v playlist_items = repeat_video n v (playlist_items @ [v])"

text \<open>\<open>for slide in slides: playlist_items.append(slide item)\<close>.\<close>

fun append_slides :: "string list \<Rightarrow> player_item list \<Rightarrow> player_item list" where
  "append_slides [] playlist_items = playlist_items"
| "append_slides (slide # rest) playlist_items =
     append_slides rest (playlist_items @ [slide_item slide])"

fun repeat_slides :: "nat \<Rightarrow> string list \<Rightarrow> player_item list \<Rightarrow> player_item list" where
  "repeat_slides 0 slides playlist_items = playlist_items"
| "repeat_slides (Suc n) slides playlist_items =
     repeat_slides n slides (append_slides slides playlist_items)"

text \<open>
  The loop \<open>for entry in selected\<close> of \<open>build_playlist_items\<close>, with the list built so
  far and the file system (the conversion cache changes under \<open>get_slides\<close>). An
  exception leaves the loop.
\<close>

fun resolve_selected ::
  "tool \<Rightarrow> string list \<Rightarrow> string list \<Rightarrow> entry list \<Rightarrow> player_item list \<Rightarrow> fs
     \<Rightarrow> (py_error + player_item list) \<times> fs" where
  "resolve_selected run video_map pres_map [] playlist_items s = (Inr playlist_items, s)"
| "resolve_selected run video_map pres_map (e # rest) playlist_items s =
     (if \<not> truthy (entry_name e) then resolve_selected run video_map pres_map rest playlist_items s
      else (case map_lookup (entry_name e) video_map of
              Inl err \<Rightarrow> (Inl err, s)
            | Inr (Some v) \<Rightarrow>
                resolve_selected run video_map pres_map rest
                  (repeat_video (nat (entry_repeats e)) (video_item v) playlist_items) s
            | Inr None \<Rightarrow>
                (case map_lookup (entry_name e) pres_map of
                   Inl err \<Rightarrow> (Inl err, s)
                 | Inr (Some p) \<Rightarrow>
                     (let (slides, s1) = get_slides run p s
                      in resolve_selected run video_map pres_map rest
                           (repeat_slides (nat (entry_repeats e)) slides playlist_items) s1)
                 | Inr None \<Rightarrow> resolve_selected run video_map pres_map rest playlist_items s)))"

text \<open>The fallback without an ordering: every video, then every presentation's slides.\<close>

fun all_presentations :: "tool \<Rightarrow> string list \<Rightarrow> player_item list \<Rightarrow> fs \<Rightarrow> player_item list \<times> fs" where
  "all_presentations run [] playlist_items s = (playlist_items, s)"
| "all_presentations run (presentation_file # rest) playlist_items s =
     (let (slides, s1) = get_slides run presentation_file s
      in all_presentations run rest (append_slides slides playlist_items) s1)"

definition build_playlist_items ::
  "(string \<Rightarrow> int option) \<Rightarrow> tool \<Rightarrow> fs \<Rightarrow> (py_error + player_item list) \<times> fs" where
  "build_playlist_items str_to_int run s =
     (let selected = selected_entries str_to_int (playlist_json s);
          video_files = get_video_files s;
          presentation_files = get_presentation_files s
      in if selected \<noteq> [] then resolve_selected run video_files presentation_files selected [] s
         else (let (playlist_items, s1) =
                     all_presentations run presentation_files (map video_item video_files) s
               in (Inr playlist_items, s1)))"

text \<open>
  In the words of the specification: an entry contributes \<open>repeats\<close> contiguous
  occurrences of its unit, which is the video, the slide sequence of the document, or
  nothing for an entry without a backing file. \<open>entry_blocks\<close> lists the contribution of
  every entry, in the order of the entries.
\<close>

definition occurrences :: "nat \<Rightarrow> 'a list \<Rightarrow> 'a list" where
  "occurrences n unit = concat (replicate n unit)"

definition entry_unit ::
  "tool \<Rightarrow> string list \<Rightarrow> string list \<Rightarrow> entry \<Rightarrow> fs \<Rightarrow> player_item list \<times> fs" where
  "entry_unit run video_map pres_map e s =
     (case entry_name e of
        JStr n \<Rightarrow>
          (if n = [] then ([], s)
           else if n \<in> set video_map then ([video_item n], s)
           else if n \<in> set pres_map
             then (let (slides, s') = get_slides run n s in (map slide_item slides, s'))
           else ([], s))
      | _ \<Rightarrow> ([], s))"

fun entry_blocks ::
  "tool \<Rightarrow> string list \<Rightarrow> string list \<Rightarrow> entry list \<Rightarrow> fs \<Rightarrow> player_item list list \<times> fs" where
  "entry_blocks run video_map pres_map [] s = ([], s)"
| "entry_blocks run video_map pres_map (e # rest) s =
     (let (unit, s1) = entry_unit run video_map pres_map e s;
          (blocks, s2) = entry_blocks run video_map pres_map rest s1
      in (occurrences (nat (entry_repeats e)) unit # blocks, s2))"

definition string_named :: "entry \<Rightarrow> bool" where
  "string_named e = (case entry_name e of JStr n \<Rightarrow> True | _ \<Rightarrow> False)"

section \<open>Content Resolver of the web player (web\_player.py)\<close>

definition web_get_video_files :: "fs \<Rightarrow> string list" where
  "web_get_video_files s =
     (case videos_dir s of
        None \<Rightarrow> []
      | Some names \<Rightarrow> sort (glob_formats VIDEO_FORMATS names))"

definition web_video :: "string \<Rightarrow> web_item" where
  "web_video n =
     \<lparr>item_type = ''video'', item_url = ''/content/videos/'' @ n, item_name = n,
      item_duration = None\<rparr>"

definition web_slide :: "string \<Rightarrow> string \<Rightarrow> web_item" where
  "web_slide stem slide =
     \<lparr>item_type = ''image'', item_url = ''/content/slides/'' @ stem @ ''/'' @ slide,
      item_name = slide, item_duration = Some SLIDE_DURATION\<rparr>"

fun web_repeat_video :: "nat \<Rightarrow> web_item \<Rightarrow> web_item list \<Rightarrow> web_item list" where
  "web_repeat_video 0 v playlist = playlist"
| "web_repeat_video (Suc n) v playlist = web_repeat_video n v (playlist @ [v])"

fun web_append_slides :: "string \<Rightarrow> string list \<Rightarrow> web_item list \<Rightarrow> web_item list" where
  "web_append_slides stem [] playlist = playlist"
| "web_append_slides stem (slide # rest) playlist =
     web_append_slides stem rest (playlist @ [web_slide stem slide])"

text \<open>The slides are globbed again in every repetition; the requests do not change them.\<close>

fun web_repeat_slides :: "nat \<Rightarrow> string \<Rightarrow> fs \<Rightarrow> web_item list \<Rightarrow> web_item list" where
  "web_repeat_slides 0 stem s playlist = playlist"
| "web_repeat_slides (Suc n) stem s playlist =
     web_repeat_slides n stem s
       (web_append_slides stem (sort (glob_slides (cache_listing s stem))) playlist)"

text \<open>
  The loop \<open>for entry in selected\<close> of \<open>get_playlist_uncached\<close>. An entry that names no
  video is taken for a presentation and looked up in the slide cache by its stem;
  \<open>Path(name)\<close> raises TypeError for a name that is not a string.
\<close>

fun web_resolve_selected ::
  "string list \<Rightarrow> entry list \<Rightarrow> web_item list \<Rightarrow> fs \<Rightarrow> py_error + web_item list" where
  "web_resolve_selected video_files [] playlist s = Inr playlist"
| "web_resolve_selected video_files (e # rest) playlist s =
     (if \<not> truthy (entry_name e) then web_resolve_selected video_files rest playlist s
      else (case map_lookup (entry_name e) video_files of
              Inl err \<Rightarrow> Inl err
            | Inr (Some v) \<Rightarrow>
                web_resolve_selected video_files rest
                  (web_repeat_video (nat (entry_repeats e)) (web_video v) playlist) s
            | Inr None \<Rightarrow>
                (case entry_name e of
                   JStr n \<Rightarrow>
                     (let stem = py_stem (py_name n)
                      in if map_of (slides_cache s) stem \<noteq> None
                         then web_resolve_selected video_files rest
                                (web_repeat_slides (nat (entry_repeats e)) stem s playlist) s
                         else web_resolve_selected video_files rest playlist s)
                 | _ \<Rightarrow> Inl TypeError)))"

text \<open>\<open>get_slide_files\<close>: the slides of every cache directory, directories in sorted order.\<close>

definition get_slide_files :: "fs \<Rightarrow> (string \<times> string) list" where
  "get_slide_files s =
     concat (map (\<lambda>(stem, names). map (\<lambda>slide. (stem, slide)) (sort (glob_slides names)))
               (sort_key fst (slides_cache s)))"

definition get_playlist_uncached :: "(string \<Rightarrow> int option) \<Rightarrow> fs \<Rightarrow> py_error + web_item list" where
  "get_playlist_uncached str_to_int s =
     (let selected = selected_entries str_to_int (playlist_json s);
          video_files = web_get_video_files s
      in if selected \<noteq> [] then web_resolve_selected video_files selected [] s
         else Inr (map web_video video_files
                   @ map (\<lambda>(stem, slide). web_slide stem slide) (get_slide_files s)))"

text \<open>The contribution of one entry to the web playlist, in the words of the specification.\<close>

definition web_block :: "string list \<Rightarrow> fs \<Rightarrow> entry \<Rightarrow> web_item list" where
  "web_block video_files s e =
     occurrences (nat (entry_repeats e))
       (case entry_name e of
          JStr n \<Rightarrow>
            (if n = [] then []
             else if n \<in> set video_files then [web_video n]
             else map (web_slide (py_stem (py_name n)))
                    (sort (glob_slides (cache_listing s (py_stem (py_name n))))))
        | _ \<Rightarrow> [])"

section \<open>Pruning of the ordering (dashboard.py)\<close>

text \<open>
  \<open>item_exists\<close>: \<open>(VIDEOS_DIR / name).exists()\<close> or \<open>(PRESENTATIONS_DIR / name).exists()\<close>.
  Whether the joined path exists is the answer of the operating system, the parameter
  \<open>path_exists dir name\<close>: the name may be \<open>..\<close>, have several components or be
  absolute, so the answer is not membership of the name in the listing of the directory;
  and \<open>exists\<close> raises for the errors of \<open>stat\<close> it does not take for absence (a name
  that is too long, a directory that may not be searched). The second directory is asked
  only when the first answers no. Joining a path with a value that is not a string
  raises TypeError.
\<close>

type_synonym path_exists = "string \<Rightarrow> string \<Rightarrow> py_error + bool"

definition item_exists :: "path_exists \<Rightarrow> json \<Rightarrow> py_error + bool" where
  "item_exists path_exists name =
     (if \<not> truthy name then Inr False
      else (case name of
              JStr n \<Rightarrow>
                (case path_exists VIDEOS_DIR n of
                   Inl err \<Rightarrow> Inl err
                 | Inr True \<Rightarrow> Inr True
                 | Inr False \<Rightarrow>
                     (case path_exists PRESENTATIONS_DIR n of
                        Inl err \<Rightarrow> Inl err
                      | Inr True \<Rightarrow> Inr True
                      | Inr False \<Rightarrow> Inr False))
            | _ \<Rightarrow> Inl TypeError))"

text \<open>The loop of \<open>filter_valid_playlist\<close> with its two accumulators.\<close>

fun filter_loop ::
  "path_exists \<Rightarrow> entry list \<Rightarrow> entry list \<Rightarrow> json list
     \<Rightarrow> py_error + (entry list \<times> json list)" where
  "filter_loop path_exists [] valid_items removed_items = Inr (valid_items, removed_items)"
| "filter_loop path_exists (item # rest) valid_items removed_items =
     (if truthy (entry_name item)
      then (case item_exists path_exists (entry_name item) of
              Inl err \<Rightarrow> Inl err
            | Inr True \<Rightarrow> filter_loop path_exists rest (valid_items @ [item]) removed_items
            | Inr False \<Rightarrow>
                filter_loop path_exists rest valid_items (removed_items @ [entry_name item]))
      else filter_loop path_exists rest valid_items removed_items)"

definition filter_valid_playlist ::
  "(string \<Rightarrow> int option) \<Rightarrow> path_exists \<Rightarrow> json \<Rightarrow> py_error + (entry list \<times> json list)" where
  "filter_valid_playlist str_to_int path_exists playlist =
     filter_loop path_exists (normalize_playlist_to_objects str_to_int playlist) [] []"

text \<open>
  \<open>write_playlist\<close>: the entries as \<open>json.dumps\<close> writes them. A write that fails is
  logged and leaves the file as it was; \<open>writable\<close> says whether the write succeeds.
\<close>

definition entry_json :: "entry \<Rightarrow> json" where
  "entry_json e = JObj [(''name'', entry_name e), (''repeats'', JInt (entry_repeats e))]"

definition write_playlist :: "bool \<Rightarrow> entry list \<Rightarrow> fs \<Rightarrow> fs" where
  "write_playlist writable lst s =
     (if writable then s\<lparr>playlist_json := Some (Json (JList (map entry_json lst)))\<rparr> else s)"

text \<open>
  The head of the \<open>dashboard\<close> view: read the ordering, filter it, and write the cleaned
  ordering back when something was removed. The result is the list of removed names.
  The write touches the ordering file only, which exists whenever there is something to
  remove, so the paths that exist are the same before and after.
\<close>

definition dashboard_cleanup ::
  "(string \<Rightarrow> int option) \<Rightarrow> path_exists \<Rightarrow> bool \<Rightarrow> fs \<Rightarrow> (py_error + json list) \<times> fs" where
  "dashboard_cleanup str_to_int path_exists writable s =
     (case filter_valid_playlist str_to_int path_exists (read_playlist (playlist_json s)) of
        Inl err \<Rightarrow> (Inl err, s)
      | Inr (cleaned_playlist, removed_items) \<Rightarrow>
          (if removed_items \<noteq> []
           then (Inr removed_items, write_playlist writable cleaned_playlist s)
           else (Inr removed_items, s)))"

text \<open>
  An installation with one video, one converted two-page document, and an ordering that
  plays the document twice and then the video.
\<close>

definition demo_fs :: fs where
  "demo_fs =
     \<lparr>videos_dir = Some [''a.mp4''], presentations_dir = Some [''deck.pdf''],
      slides_cache = [(''deck'', [''slide_000.png'', ''slide_001.png''])],
      playlist_json = Some (Json (JList
        [JObj [(''name'', JStr ''deck.pdf''), (''repeats'', JInt 2)], JStr ''a.mp4''])),
      signage_json = None, web_json = None, playlist_m3u = None, tool_runs = []\<rparr>"

text \<open>
  Two file systems that differ at most in the slide cache and the list of commands run:
  what a conversion may change.
\<close>

definition content_unchanged :: "fs \<Rightarrow> fs \<Rightarrow> bool" where
  "content_unchanged s s' =
     (videos_dir s' = videos_dir s \<and> presentations_dir s' = presentations_dir s
      \<and> playlist_json s' = playlist_json s \<and> signage_json s' = signage_json s
      \<and> web_json s' = web_json s \<and> playlist_m3u s' = playlist_m3u s)"

text \<open>
  In the words of the specification: an entry has a backing file when the path its name
  makes with one of the two content directories exists, and is orphaned when the path
  exists under neither. For an entry that is \<open>answered\<close> the operating system gives an
  answer for both directories.
\<close>

definition has_file :: "path_exists \<Rightarrow> entry \<Rightarrow> bool" where
  "has_file path_exists e =
     (case entry_name e of
        JStr n \<Rightarrow> n \<noteq> [] \<and> (path_exists VIDEOS_DIR n = Inr True
                              \<or> path_exists PRESENTATIONS_DIR n = Inr True)
      | _ \<Rightarrow> False)"

definition orphaned :: "path_exists \<Rightarrow> entry \<Rightarrow> bool" where
  "orphaned path_exists e =
     (case entry_name e of
        JStr n \<Rightarrow> n \<noteq> [] \<and> path_exists VIDEOS_DIR n = Inr False
                  \<and> path_exists PRESENTATIONS_DIR n = Inr False
      | _ \<Rightarrow> False)"

definition answered :: "path_exists \<Rightarrow> entry \<Rightarrow> bool" where
  "answered path_exists e =
     (case entry_name e of
        JStr n \<Rightarrow> n = [] \<or> (\<not> isl (path_exists VIDEOS_DIR n)
                              \<and> \<not> isl (path_exists PRESENTATIONS_DIR n))
      | _ \<Rightarrow> False)"

text \<open>
  The listings the player globs and the answers the dashboard gets describe one state of
  the disk: every name listed in a content directory exists under it.
\<close>

definition listed_exist :: "path_exists \<Rightarrow> fs \<Rightarrow> bool" where
  "listed_exist path_exists s =
     (list_all (\<lambda>n. path_exists VIDEOS_DIR n = Inr True) (listing (videos_dir s))
      \<and> list_all (\<lambda>n. path_exists PRESENTATIONS_DIR n = Inr True)
            (listing (presentations_dir s)))"

text \<open>
  An installation whose ordering names a file that is in neither directory, and the
  paths that exist there: the video, and \<open>.\<close> and \<open>..\<close> under every directory.
\<close>

definition ghost_fs :: fs where
  "ghost_fs =
     blank_fs\<lparr>videos_dir := Some [''a.mp4''],
       playlist_json := Some (Json (JList [JStr ''ghost.mp4'', JStr ''a.mp4'']))\<rparr>"

definition ghost_paths :: path_exists where
  "ghost_paths dir name =
     Inr (name = ''.'' \<or> name = ''..'' \<or> (dir = VIDEOS_DIR \<and> name = ''a.mp4''))"

text \<open>An installation whose ordering names only a file that is in neither directory.\<close>

definition only_ghost_fs :: fs where
  "only_ghost_fs =
     blank_fs\<lparr>videos_dir := Some [''a.mp4''],
       playlist_json := Some (Json (JList [JStr ''ghost.mp4'']))\<rparr>"

section \<open>Playback Controller: the command mailbox (player.py)\<close>

text \<open>
  The controller's own state, the processes of the machine and the files. A VLC process
  plays, is stopped by SIGSTOP or has ended; it plays the playlist file as it was when
  the process started. \<open>vlc_process\<close> is \<open>None\<close> or the process object, which names a
  process by its place in the table of all processes started so far.
\<close>

datatype proc_state = Playing | Paused | Finished

record vlc_proc =
  proc_state :: proc_state
  proc_playlist :: "m3u_entry list option"

record player =
  vlc_process :: "nat option"
  current_playlist_hash :: "int option"
  pending_update :: bool

record controller =
  the_player :: player
  processes :: "vlc_proc list"
  files :: fs

text \<open>What the operating system answers: whether a signal can be sent, and whether VLC starts.\<close>

record os_env =
  kill_ok :: bool
  popen_ok :: bool

text \<open>\<open>is_vlc_running\<close>: there is a process object and \<open>poll()\<close> finds the process alive.\<close>

definition is_vlc_running :: "controller \<Rightarrow> bool" where
  "is_vlc_running c =
     (case vlc_process (the_player c) of
        None \<Rightarrow> False
      | Some pid \<Rightarrow> pid < length (processes c) \<and> proc_state (processes c ! pid) \<noteq> Finished)"

text \<open>\<open>create_playlist\<close> writes one \<open>#EXTINF\<close> line and one path line per item.\<close>

definition m3u_of :: "player_item \<Rightarrow> m3u_entry" where
  "m3u_of item =
     \<lparr>extinf = (if pi_type item = Video then - 1 else pi_duration item),
      title = py_name (pi_path item), location = pi_path item\<rparr>"

definition create_playlist :: "player_item list \<Rightarrow> fs \<Rightarrow> fs" where
  "create_playlist items s = s\<lparr>playlist_m3u := Some (map m3u_of items)\<rparr>"

text \<open>
  \<open>stop_vlc\<close>: a running process is terminated, and killed if it does not end within
  three seconds; the process object is dropped. Nothing happens when no process runs.
\<close>

definition stop_vlc :: "controller \<Rightarrow> controller" where
  "stop_vlc c =
     (case vlc_process (the_player c) of
        None \<Rightarrow> c
      | Some pid \<Rightarrow>
          (if is_vlc_running c
           then c\<lparr>processes := (processes c)[pid := (processes c ! pid)\<lparr>proc_state := Finished\<rparr>],
                  the_player := (the_player c)\<lparr>vlc_process := None\<rparr>\<rparr>
           else c))"

text \<open>
  \<open>start_vlc\<close>: \<open>Popen\<close> starts a new process on the playlist file and the controller
  keeps its process object; \<open>Popen\<close> raises when VLC cannot be started.
\<close>

definition start_vlc :: "os_env \<Rightarrow> controller \<Rightarrow> py_error + controller" where
  "start_vlc env c =
     (if popen_ok env
      then Inr (c\<lparr>processes := processes c
                     @ [\<lparr>proc_state = Playing, proc_playlist = playlist_m3u (files c)\<rparr>],
                   the_player := (the_player c)\<lparr>vlc_process := Some (length (processes c))\<rparr>\<rparr>)
      else Inl OSError)"

text \<open>\<open>os.kill(pid, SIGSTOP)\<close> and \<open>os.kill(pid, SIGCONT)\<close>; a failure is logged and dropped.\<close>

definition send_signal :: "os_env \<Rightarrow> proc_state \<Rightarrow> controller \<Rightarrow> controller" where
  "send_signal env target c =
     (case vlc_process (the_player c) of
        None \<Rightarrow> c
      | Some pid \<Rightarrow>
          (if is_vlc_running c \<and> kill_ok env
           then c\<lparr>processes := (processes c)[pid := (processes c ! pid)\<lparr>proc_state := target\<rparr>]\<rparr>
           else c))"

text \<open>\<open>items.pop(0); items.append(first)\<close> and \<open>items.pop(); items.insert(0, last)\<close>.\<close>

definition rotate_next :: "'a list \<Rightarrow> 'a list" where
  "rotate_next items = tl items @ [hd items]"

definition rotate_prev :: "'a list \<Rightarrow> 'a list" where
  "rotate_prev items = last items # butlast items"

text \<open>
  The part of \<open>process_commands_if_any\<close> after the command file has been removed: the
  dispatch on \<open>action\<close>. Every exception ends in the outer \<open>except\<close>, which logs it and
  returns with what has been done so far. The half second of sleep between stopping and
  starting VLC has no counterpart here.
\<close>

definition apply_action ::
  "os_env \<Rightarrow> (string \<Rightarrow> int option) \<Rightarrow> tool \<Rightarrow> json \<Rightarrow> controller \<Rightarrow> controller" where
  "apply_action env str_to_int run action c =
     (if action = JStr ''pause'' then send_signal env Paused c
      else if action = JStr ''play'' then send_signal env Playing c
      else if action = JStr ''next'' \<or> action = JStr ''prev''
        then (case build_playlist_items str_to_int run (files c) of
                (Inl err, s1) \<Rightarrow> c\<lparr>files := s1\<rparr>
              | (Inr items, s1) \<Rightarrow>
                  (if items = [] then c\<lparr>files := s1\<rparr>
                   else (let rotated = (if action = JStr ''next'' then rotate_next items
                                        else rotate_prev items);
                             c1 = c\<lparr>files := create_playlist rotated s1\<rparr>;
                             c2 = stop_vlc c1
                         in case start_vlc env c2 of
                              Inl err \<Rightarrow> c2
                            | Inr c3 \<Rightarrow> c3)))
      else c)"

text \<open>
  \<open>process_commands_if_any\<close>. A file that does not parse counts as \<open>{}\<close>. A parsed value
  that is not a dict has no \<open>get\<close>: the AttributeError reaches the outer \<open>except\<close> before
  the file is removed.
\<close>

definition process_commands_if_any ::
  "os_env \<Rightarrow> (string \<Rightarrow> int option) \<Rightarrow> tool \<Rightarrow> controller \<Rightarrow> controller" where
  "process_commands_if_any env str_to_int run c =
     (case signage_json (files c) of
        None \<Rightarrow> c
      | Some content \<Rightarrow>
          (case (case content of Unparseable \<Rightarrow> JObj [] | Json v \<Rightarrow> v) of
             JObj data \<Rightarrow>
               apply_action env str_to_int run (dict_get data ''action'')
                 (c\<lparr>files := (files c)\<lparr>signage_json := None\<rparr>\<rparr>)
           | _ \<Rightarrow> c))"

text \<open>
  A controller whose VLC plays on the installation with one video and one document, an
  operating system that refuses signals and cannot start VLC, and one where both work.
\<close>

definition playing_controller :: controller where
  "playing_controller =
     \<lparr>the_player = \<lparr>vlc_process = Some 0, current_playlist_hash = None, pending_update = False\<rparr>,
      processes = [\<lparr>proc_state = Playing, proc_playlist = None\<rparr>],
      files = demo_fs\<rparr>"

definition failing_os :: os_env where
  "failing_os = \<lparr>kill_ok = False, popen_ok = False\<rparr>"

definition working_os :: os_env where
  "working_os = \<lparr>kill_ok = True, popen_ok = True\<rparr>"

chapter \<open>Properties\<close>

subsection \<open>The position loop finds the first item whose upper bound exceeds the position\<close>









subsection \<open>Normalization of the ordering file\<close>

lemma normalize_loop_append:
  "normalize_loop str_to_int (xs @ ys) = normalize_loop str_to_int xs @ normalize_loop str_to_int ys"
  by (induction xs) simp_all

lemma normalize_entry_repeats_ge_1:
  "e \<in> set (normalize_entry str_to_int raw_entry) \<Longrightarrow> 1 \<le> entry_repeats e"
  by (auto simp: normalize_entry_def Let_def split: json.splits if_splits)

lemma normalize_loop_repeats_ge_1:
  "e \<in> set (normalize_loop str_to_int raws) \<Longrightarrow> 1 \<le> entry_repeats e"
  by (induction raws) (auto dest: normalize_entry_repeats_ge_1)

lemma normalize_entry_clamped:
  assumes name: "truthy (py_or (dict_get d ''name'') (dict_get d ''filename''))"
    and low: "py_int str_to_int (dict_get_default d ''repeats'' (JInt 1)) = None
       \<or> (\<exists>n. py_int str_to_int (dict_get_default d ''repeats'' (JInt 1)) = Some n \<and> n < 1)"
  shows "normalize_entry str_to_int (JObj d) =
     [\<lparr>entry_name = py_or (dict_get d ''name'') (dict_get d ''filename''), entry_repeats = 1\<rparr>]"
  using assms by (auto simp: normalize_entry_def Let_def)

lemma normalize_entry_nameless:
  assumes "map_of d ''name'' = None" and "map_of d ''filename'' = None"
  shows "normalize_entry str_to_int (JObj d) = []"
  using assms by (simp add: normalize_entry_def Let_def dict_get_def py_or_def)

lemma not_list_empty_ordering:
  assumes "\<nexists>items. data = JList items"
  shows "selected_entries str_to_int (Some (Json data)) = []"
    and "normalize_playlist_to_objects str_to_int data = []"
  using assms
  by (cases data; simp add: selected_entries_def normalize_playlist_to_objects_def)+

text \<open>
  Claim C10. Normalization clamps the repeat count from below: every normalized entry has
  repeats at least 1, and an object entry with a name whose \<open>repeats\<close> value does not
  convert to an integer, or converts to one below 1, becomes the entry with repeats 1, in
  its place in the sequence. An object entry with neither a \<open>name\<close> nor a \<open>filename\<close>
  key is dropped. A top-level JSON value that is not a list gives the empty ordering, in
  the player, the web player and the dashboard alike.
\<close>

theorem normalization_clamps_repeats:
  "(\<forall>e \<in> set (normalize_loop str_to_int raws). 1 \<le> entry_repeats e)
   \<and> (truthy (py_or (dict_get d ''name'') (dict_get d ''filename''))
        \<and> (py_int str_to_int (dict_get_default d ''repeats'' (JInt 1)) = None
           \<or> (\<exists>n. py_int str_to_int (dict_get_default d ''repeats'' (JInt 1)) = Some n \<and> n < 1))
        \<longrightarrow> normalize_loop str_to_int (before @ JObj d # after) =
              normalize_loop str_to_int before
              @ [\<lparr>entry_name = py_or (dict_get d ''name'') (dict_get d ''filename''),
                   entry_repeats = 1\<rparr>]
              @ normalize_loop str_to_int after)
   \<and> (map_of d' ''name'' = None \<and> map_of d' ''filename'' = None
        \<longrightarrow> normalize_loop str_to_int (before @ JObj d' # after) =
              normalize_loop str_to_int before @ normalize_loop str_to_int after)
   \<and> ((\<nexists>items. data = JList items)
        \<longrightarrow> selected_entries str_to_int (Some (Json data)) = []
            \<and> normalize_playlist_to_objects str_to_int data = []
            \<and> normalize_playlist_to_objects str_to_int (read_playlist (Some (Json data))) = [])"
proof (intro conjI ballI impI)
  fix e assume "e \<in> set (normalize_loop str_to_int raws)"
  then show "1 \<le> entry_repeats e" by (rule normalize_loop_repeats_ge_1)
next
  assume a: "truthy (py_or (dict_get d ''name'') (dict_get d ''filename''))
        \<and> (py_int str_to_int (dict_get_default d ''repeats'' (JInt 1)) = None
           \<or> (\<exists>n. py_int str_to_int (dict_get_default d ''repeats'' (JInt 1)) = Some n \<and> n < 1))"
  then have "normalize_entry str_to_int (JObj d) =
     [\<lparr>entry_name = py_or (dict_get d ''name'') (dict_get d ''filename''), entry_repeats = 1\<rparr>]"
    by (intro normalize_entry_clamped) simp_all
  then show "normalize_loop str_to_int (before @ JObj d # after) =
              normalize_loop str_to_int before
              @ [\<lparr>entry_name = py_or (dict_get d ''name'') (dict_get d ''filename''),
                   entry_repeats = 1\<rparr>]
              @ normalize_loop str_to_int after"
    by (simp add: normalize_loop_append)
next
  assume "map_of d' ''name'' = None \<and> map_of d' ''filename'' = None"
  then have "normalize_entry str_to_int (JObj d') = []"
    by (intro normalize_entry_nameless) simp_all
  then show "normalize_loop str_to_int (before @ JObj d' # after) =
              normalize_loop str_to_int before @ normalize_loop str_to_int after"
    by (simp add: normalize_loop_append)
next
  assume n: "\<nexists>items. data = JList items"
  then show "selected_entries str_to_int (Some (Json data)) = []"
    by (rule not_list_empty_ordering)
  from n show "normalize_playlist_to_objects str_to_int data = []"
    by (rule not_list_empty_ordering)
  then show "normalize_playlist_to_objects str_to_int (read_playlist (Some (Json data))) = []"
    by (simp add: read_playlist_def)
qed

theorem normalization_clamps_repeats_witness:
  "set (normalize_loop (\<lambda>s. None) [JStr ''a.mp4'', JObj [(''name'', JStr ''b.pdf''), (''repeats'', JInt 0)]])
     = {\<lparr>entry_name = JStr ''a.mp4'', entry_repeats = 1\<rparr>,
        \<lparr>entry_name = JStr ''b.pdf'', entry_repeats = 1\<rparr>}
   \<and> py_int (\<lambda>s. None) (dict_get_default [(''name'', JStr ''b.pdf''), (''repeats'', JStr ''many'')]
        ''repeats'' (JInt 1)) = None
   \<and> normalize_loop (\<lambda>s. None)
        ([JStr ''a.mp4''] @ JObj [(''name'', JStr ''b.pdf''), (''repeats'', JStr ''many'')] # [])
      = [\<lparr>entry_name = JStr ''a.mp4'', entry_repeats = 1\<rparr>,
         \<lparr>entry_name = JStr ''b.pdf'', entry_repeats = 1\<rparr>]
   \<and> normalize_loop (\<lambda>s. None) ([JStr ''a.mp4''] @ JObj [(''repeats'', JInt 3)] # [])
      = [\<lparr>entry_name = JStr ''a.mp4'', entry_repeats = 1\<rparr>]
   \<and> selected_entries (\<lambda>s. None) (Some (Json (JObj [(''name'', JStr ''a.mp4'')]))) = []
   \<and> normalize_playlist_to_objects (\<lambda>s. None) (JObj [(''name'', JStr ''a.mp4'')]) = []"
  using normalization_clamps_repeats
      [of "\<lambda>s. None" "[JStr ''a.mp4'', JObj [(''name'', JStr ''b.pdf''), (''repeats'', JInt 0)]]"
        "[(''name'', JStr ''b.pdf''), (''repeats'', JStr ''many'')]"
        "[JStr ''a.mp4'']" "[]" "[(''repeats'', JInt 3)]" "JObj [(''name'', JStr ''a.mp4'')]"]
  by (simp add: normalize_entry_def dict_get_def dict_get_default_def py_or_def)

subsection \<open>The command relay only reads\<close>

lemma api_command_state: "snd (api_command s) = s"
  by (simp add: api_command_def split: option.splits file_content.splits)

lemma poll_command_same:
  "poll_command n s = (replicate n (fst (api_command s)), s)"
proof (induction n)
  case 0
  show ?case by simp
next
  case (Suc n)
  obtain r s1 where r: "api_command s = (r, s1)"
    by (cases "api_command s")
  with api_command_state [of s] have "s1 = s" by simp
  with r Suc show ?case by simp
qed

text \<open>
  Claim C8. Whatever the state of the network-relay mailbox file, the pending-command
  query leaves the file system, and so the mailbox file, as it was; it answers with the
  message's content (with the empty object for a file that does not parse, and with
  null when there is no file), and any number of successive polls get the same answer.
\<close>

theorem api_command_leaves_mailbox:
  "snd (api_command s) = s
   \<and> web_json (snd (api_command s)) = web_json s
   \<and> (web_json s = Some (Json data) \<longrightarrow> fst (api_command s) = command_response data)
   \<and> (web_json s = Some Unparseable \<longrightarrow> fst (api_command s) = command_response (JObj []))
   \<and> (web_json s = None \<longrightarrow> fst (api_command s) = command_response JNull)
   \<and> poll_command n s = (replicate n (fst (api_command s)), s)"
  by (simp add: api_command_state poll_command_same) (simp add: api_command_def)

theorem api_command_leaves_mailbox_witness:
  "web_json (blank_fs\<lparr>web_json := Some (Json (JObj [(''action'', JStr ''next''),
        (''ts'', JFloat (Finite 1700000000))]))\<rparr>)
     = Some (Json (JObj [(''action'', JStr ''next''), (''ts'', JFloat (Finite 1700000000))]))
   \<and> api_command (blank_fs\<lparr>web_json := Some (Json (JObj [(''action'', JStr ''next''),
        (''ts'', JFloat (Finite 1700000000))]))\<rparr>)
     = (command_response (JObj [(''action'', JStr ''next''), (''ts'', JFloat (Finite 1700000000))]),
        blank_fs\<lparr>web_json := Some (Json (JObj [(''action'', JStr ''next''),
        (''ts'', JFloat (Finite 1700000000))]))\<rparr>)
   \<and> web_json (blank_fs\<lparr>web_json := Some Unparseable\<rparr>) = Some Unparseable
   \<and> api_command (blank_fs\<lparr>web_json := Some Unparseable\<rparr>)
     = (command_response (JObj []), blank_fs\<lparr>web_json := Some Unparseable\<rparr>)
   \<and> web_json blank_fs = None
   \<and> api_command blank_fs = (command_response JNull, blank_fs)
   \<and> fst (poll_command 3 (blank_fs\<lparr>web_json := Some Unparseable\<rparr>))
     = [command_response (JObj []), command_response (JObj []), command_response (JObj [])]"
  using api_command_leaves_mailbox
      [of "blank_fs\<lparr>web_json := Some (Json (JObj [(''action'', JStr ''next''),
        (''ts'', JFloat (Finite 1700000000))]))\<rparr>"
        "JObj [(''action'', JStr ''next''), (''ts'', JFloat (Finite 1700000000))]" 0]
    api_command_leaves_mailbox [of "blank_fs\<lparr>web_json := Some Unparseable\<rparr>" JNull 3]
    api_command_leaves_mailbox [of blank_fs JNull 0]
  by (simp add: blank_fs_def prod_eq_iff numeral_3_eq_3)

subsection \<open>The conversion cache\<close>

lemma cache_listing_mkdir [simp]:
  "cache_listing (mkdir_cache stem s) stem' = cache_listing s stem'"
  by (auto simp: cache_listing_def mkdir_cache_def split: option.splits if_splits)

lemma tool_runs_mkdir [simp]: "tool_runs (mkdir_cache stem s) = tool_runs s"
  by (simp add: mkdir_cache_def split: option.splits)

lemma mkdir_cache_exists: "map_of (slides_cache (mkdir_cache stem s)) stem \<noteq> None"
  by (auto simp: mkdir_cache_def map_add_def split: option.splits)

lemma is_cached_iff:
  "is_cached s f \<longleftrightarrow> glob_slides (cache_listing s (get_cache_path f)) \<noteq> []"
  by (auto simp: is_cached_def cache_listing_def glob_slides_def split: option.splits)

lemma subprocess_run_ran:
  assumes "run (length (tool_runs s)) cmd (cache_listing s stem) = (status, names)"
    and "status \<noteq> ToolMissing"
  shows "cache_listing (snd (subprocess_run run cmd stem s)) stem = names"
    and "tool_runs (snd (subprocess_run run cmd stem s)) = tool_runs s @ [cmd]"
    and "map_of (slides_cache (snd (subprocess_run run cmd stem s))) stem = Some names"
  using assms
  by (cases status; simp add: subprocess_run_def cache_listing_def update_conv')+

lemma subprocess_run_missing:
  assumes "run (length (tool_runs s)) cmd (cache_listing s stem) = (ToolMissing, names)"
  shows "subprocess_run run cmd stem s = (Inl FileNotFoundError, s)"
  using assms by (simp add: subprocess_run_def)

lemma subprocess_run_status:
  assumes "run (length (tool_runs s)) cmd (cache_listing s stem) = (status, names)"
  shows "fst (subprocess_run run cmd stem s) =
     (case status of Exit0 \<Rightarrow> Inr () | ExitNonzero \<Rightarrow> Inl CalledProcessError
      | Timeout \<Rightarrow> Inl TimeoutExpired | ToolMissing \<Rightarrow> Inl FileNotFoundError)"
  using assms by (cases status; simp add: subprocess_run_def)

lemma subprocess_run_runs_le:
  "subprocess_run run cmd stem s = (r, s1) \<Longrightarrow>
     length (tool_runs s1) \<le> Suc (length (tool_runs s))"
  by (auto simp: subprocess_run_def Let_def split: prod.splits exit_status.splits)

lemma convert_pdf_to_png_runs_le:
  "convert_pdf_to_png run p d s = (r, s1) \<Longrightarrow>
     length (tool_runs s1) \<le> Suc (length (tool_runs s))"
  by (auto simp: convert_pdf_to_png_def Let_def split: prod.splits sum.splits if_splits
      dest: subprocess_run_runs_le)

lemma convert_pptx_to_pdf_runs_le:
  "convert_pptx_to_pdf run p d s = (r, s1) \<Longrightarrow>
     length (tool_runs s1) \<le> Suc (length (tool_runs s))"
  by (auto simp: convert_pptx_to_pdf_def Let_def split: prod.splits sum.splits if_splits
      dest: subprocess_run_runs_le)

lemma tool_runs_unlink [simp]: "tool_runs (snd (unlink_cached stem name s)) = tool_runs s"
  by (simp add: unlink_cached_def)

lemma convert_pdf_runs_le:
  "length (tool_runs (snd (convert_pdf run f s))) \<le> Suc (length (tool_runs s))"
  by (auto simp: convert_pdf_def Let_def split: prod.splits sum.splits
      dest!: convert_pdf_to_png_runs_le)

lemma player_convert_pptx_runs_le:
  "length (tool_runs (snd (player_convert_pptx run f s))) \<le> length (tool_runs s) + 2"
proof -
  obtain r1 s1 where c1: "convert_pptx_to_pdf run f (get_cache_path f)
      (mkdir_cache (get_cache_path f) s) = (r1, s1)"
    by (cases "convert_pptx_to_pdf run f (get_cache_path f) (mkdir_cache (get_cache_path f) s)")
  from convert_pptx_to_pdf_runs_le [OF c1]
  have l1: "length (tool_runs s1) \<le> Suc (length (tool_runs s))" by simp
  show ?thesis
  proof (cases r1)
    case (Inl e)
    with c1 l1 show ?thesis by (simp add: player_convert_pptx_def Let_def)
  next
    case (Inr pdf)
    obtain r2 s2 where c2: "convert_pdf_to_png run
        (joinpath (joinpath SLIDES_CACHE_DIR (get_cache_path f)) pdf) (get_cache_path f) s1 = (r2, s2)"
      by (cases "convert_pdf_to_png run
        (joinpath (joinpath SLIDES_CACHE_DIR (get_cache_path f)) pdf) (get_cache_path f) s1")
    from convert_pdf_to_png_runs_le [OF c2]
    have l2: "length (tool_runs s2) \<le> Suc (length (tool_runs s1))" .
    obtain r3 s3 where c3: "unlink_cached (get_cache_path f) pdf s2 = (r3, s3)"
      by (cases "unlink_cached (get_cache_path f) pdf s2")
    from tool_runs_unlink [of "get_cache_path f" pdf s2] c3
    have l3: "tool_runs s3 = tool_runs s2" by simp
    from c1 Inr c2 c3 l1 l2 l3 show ?thesis
      by (simp add: player_convert_pptx_def Let_def split: sum.splits)
  qed
qed

lemma player_convert_presentation_runs_le:
  "length (tool_runs (snd (player_convert_presentation run f s))) \<le> length (tool_runs s) + 2"
  using player_convert_pptx_runs_le [of run f s] convert_pdf_runs_le [of run f s]
  by (simp add: player_convert_presentation_def Let_def)

lemma get_slides_cached:
  assumes "is_cached s f"
  shows "get_slides run f s =
     (map (joinpath (joinpath SLIDES_CACHE_DIR (get_cache_path f)))
        (sort (glob_slides (cache_listing s (get_cache_path f)))), s)"
  using assms by (simp add: get_slides_def Let_def)

lemma sort_eq_Nil_iff: "sort xs = [] \<longleftrightarrow> xs = []"
  by (metis length_0_conv length_sort)

lemma get_slides_nonempty_iff_cached:
  "fst (get_slides run f s) \<noteq> [] \<longleftrightarrow> is_cached (snd (get_slides run f s)) f"
  by (simp add: get_slides_def Let_def is_cached_iff sort_eq_Nil_iff)

lemma get_slides_again:
  assumes "fst (get_slides run f s) \<noteq> []"
  shows "get_slides run f (snd (get_slides run f s)) = get_slides run f s"
proof -
  from assms have c: "is_cached (snd (get_slides run f s)) f"
    by (simp add: get_slides_nonempty_iff_cached)
  have "get_slides run f s =
      (map (joinpath (joinpath SLIDES_CACHE_DIR (get_cache_path f)))
        (sort (glob_slides (cache_listing (snd (get_slides run f s)) (get_cache_path f)))),
       snd (get_slides run f s))"
    by (simp add: get_slides_def Let_def)
  with get_slides_cached [OF c, of run] show ?thesis by simp
qed

lemma get_slides_runs_le:
  "length (tool_runs (snd (get_slides run f s))) \<le> length (tool_runs s) + 2"
  using player_convert_presentation_runs_le [of run f s]
  by (simp add: get_slides_def Let_def)

lemmas conversion_defs =
  get_slides_def is_cached_def player_convert_presentation_def convert_presentation_def
  player_convert_pptx_def convert_pptx_def convert_pdf_def convert_pptx_to_pdf_def
  convert_pdf_to_png_def libreoffice_cmd_def convert_cmd_def subprocess_run_def unlink_cached_def mkdir_cache_def
  cache_listing_def get_cache_path_def glob_slides_def py_stem_def py_suffix_def lower_def
  ascii_lower_def PPT_FORMATS_def PDF_FORMATS_def joinpath_def SLIDES_CACHE_DIR_def
  PRESENTATIONS_DIR_def blank_fs_def suffix_to_prefix Let_def

text \<open>
  Claim C5, as the code has it. When the cache entry already holds an image,
  \<open>get_slides\<close> runs no external tool and returns the cached sequence. Otherwise the
  call runs the conversion pipeline once (at most two commands). When a call returns at
  least one image, a second call on the same document runs nothing and returns the same
  sequence; a call returns no image exactly when it leaves the entry not cached, and the
  next call then converts again.
\<close>

theorem get_slides_converts_until_cached:
  "(is_cached s f \<longrightarrow>
      get_slides run f s =
        (map (joinpath (joinpath SLIDES_CACHE_DIR (get_cache_path f)))
           (sort (glob_slides (cache_listing s (get_cache_path f)))), s))
   \<and> length (tool_runs (snd (get_slides run f s))) \<le> length (tool_runs s) + 2
   \<and> (fst (get_slides run f s) \<noteq> [] \<longrightarrow>
        get_slides run f (snd (get_slides run f s)) = get_slides run f s)
   \<and> (fst (get_slides run f s) = [] \<longleftrightarrow> \<not> is_cached (snd (get_slides run f s)) f)
   \<and> (\<not> is_cached (snd (get_slides run f s)) f \<longrightarrow>
        snd (get_slides run f (snd (get_slides run f s)))
          = snd (player_convert_presentation run f (snd (get_slides run f s))))"
proof (intro conjI impI)
  assume "is_cached s f"
  then show "get_slides run f s =
        (map (joinpath (joinpath SLIDES_CACHE_DIR (get_cache_path f)))
           (sort (glob_slides (cache_listing s (get_cache_path f)))), s)"
    by (rule get_slides_cached)
next
  show "length (tool_runs (snd (get_slides run f s))) \<le> length (tool_runs s) + 2"
    by (rule get_slides_runs_le)
next
  assume "fst (get_slides run f s) \<noteq> []"
  then show "get_slides run f (snd (get_slides run f s)) = get_slides run f s"
    by (rule get_slides_again)
next
  show "(fst (get_slides run f s) = []) = (\<not> is_cached (snd (get_slides run f s)) f)"
    using get_slides_nonempty_iff_cached [of run f s] by blast
next
  assume "\<not> is_cached (snd (get_slides run f s)) f"
  then show "snd (get_slides run f (snd (get_slides run f s)))
          = snd (player_convert_presentation run f (snd (get_slides run f s)))"
    by (simp add: get_slides_def [of run f "snd (get_slides run f s)"] Let_def)
qed

theorem get_slides_converts_until_cached_witness:
  "is_cached (blank_fs\<lparr>slides_cache := [(''deck'', [''slide_000.png''])]\<rparr>) ''deck.pdf''
   \<and> get_slides failing_once_tool ''deck.pdf''
        (blank_fs\<lparr>slides_cache := [(''deck'', [''slide_000.png''])]\<rparr>)
      = ([''~/signage/cache/slides/deck/slide_000.png''],
         blank_fs\<lparr>slides_cache := [(''deck'', [''slide_000.png''])]\<rparr>)
   \<and> fst (get_slides working_tool ''deck.pptx'' blank_fs)
      = [''~/signage/cache/slides/deck/slide_000.png'', ''~/signage/cache/slides/deck/slide_001.png'']
   \<and> get_slides working_tool ''deck.pptx'' (snd (get_slides working_tool ''deck.pptx'' blank_fs))
      = get_slides working_tool ''deck.pptx'' blank_fs
   \<and> \<not> is_cached (snd (get_slides failing_once_tool ''deck.pdf'' blank_fs)) ''deck.pdf''
   \<and> snd (get_slides failing_once_tool ''deck.pdf''
        (snd (get_slides failing_once_tool ''deck.pdf'' blank_fs)))
      = snd (player_convert_presentation failing_once_tool ''deck.pdf''
        (snd (get_slides failing_once_tool ''deck.pdf'' blank_fs)))"
proof -
  have c: "is_cached (blank_fs\<lparr>slides_cache := [(''deck'', [''slide_000.png''])]\<rparr>) ''deck.pdf''"
    by (simp add: conversion_defs)
  have w: "fst (get_slides working_tool ''deck.pptx'' blank_fs)
      = [''~/signage/cache/slides/deck/slide_000.png'', ''~/signage/cache/slides/deck/slide_001.png'']"
    by (simp add: conversion_defs working_tool_def)
  have n: "\<not> is_cached (snd (get_slides failing_once_tool ''deck.pdf'' blank_fs)) ''deck.pdf''"
    by (simp add: conversion_defs failing_once_tool_def)
  from c w n
    get_slides_converts_until_cached
      [of "blank_fs\<lparr>slides_cache := [(''deck'', [''slide_000.png''])]\<rparr>" "''deck.pdf''"
        failing_once_tool]
    get_slides_converts_until_cached [of blank_fs "''deck.pptx''" working_tool]
    get_slides_converts_until_cached [of blank_fs "''deck.pdf''" failing_once_tool]
  show ?thesis
    by (simp add: get_cache_path_def py_stem_def cache_listing_def glob_slides_def
        suffix_to_prefix joinpath_def SLIDES_CACHE_DIR_def blank_fs_def)
qed

theorem get_slides_twice_counterexample:
  "fst (get_slides failing_once_tool ''deck.pdf'' blank_fs) = []
   \<and> fst (get_slides failing_once_tool ''deck.pdf''
        (snd (get_slides failing_once_tool ''deck.pdf'' blank_fs)))
      = [''~/signage/cache/slides/deck/slide_000.png'']
   \<and> length (tool_runs (snd (get_slides failing_once_tool ''deck.pdf''
        (snd (get_slides failing_once_tool ''deck.pdf'' blank_fs))))) = 2"
  by (simp add: conversion_defs failing_once_tool_def)

subsection \<open>What a failed conversion leaves behind\<close>

lemma after_run_simps [simp]:
  "cache_listing (after_run s stem names cmd) stem = names"
  "tool_runs (after_run s stem names cmd) = tool_runs s @ [cmd]"
  "map_of (slides_cache (after_run s stem names cmd)) stem = Some names"
  by (simp_all add: after_run_def cache_listing_def update_conv')

lemma is_cached_after_run:
  "is_cached (after_run s (get_cache_path f) names cmd) f \<longleftrightarrow> glob_slides names \<noteq> []"
  by (simp add: is_cached_iff)

lemma subprocess_run_outcome:
  assumes "run (length (tool_runs s)) cmd (cache_listing s stem) = (status, names)"
  shows "subprocess_run run cmd stem s =
     (case status of
        Exit0 \<Rightarrow> (Inr (), after_run s stem names cmd)
      | ExitNonzero \<Rightarrow> (Inl CalledProcessError, after_run s stem names cmd)
      | Timeout \<Rightarrow> (Inl TimeoutExpired, after_run s stem names cmd)
      | ToolMissing \<Rightarrow> (Inl FileNotFoundError, s))"
  using assms by (simp add: subprocess_run_def after_run_def split: exit_status.splits)

lemma convert_pdf_to_png_outcome:
  assumes "run (length (tool_runs s)) (convert_cmd p d) (cache_listing s d) = (status, names)"
  shows "convert_pdf_to_png run p d s =
     (case status of
        Exit0 \<Rightarrow>
          (if glob_slides names = [] then Inl FileNotFoundError
           else Inr (sort (glob_slides names)), after_run s d names (convert_cmd p d))
      | ExitNonzero \<Rightarrow> (Inl CalledProcessError, after_run s d names (convert_cmd p d))
      | Timeout \<Rightarrow> (Inl TimeoutExpired, after_run s d names (convert_cmd p d))
      | ToolMissing \<Rightarrow> (Inl FileNotFoundError, s))"
  by (simp add: convert_pdf_to_png_def sort_eq_Nil_iff
      subprocess_run_outcome [of run s "convert_cmd p d" d status names, OF assms]
      split: exit_status.splits)

lemma convert_pptx_to_pdf_outcome:
  assumes "run (length (tool_runs s)) (libreoffice_cmd p d) (cache_listing s d) = (status, names)"
  shows "convert_pptx_to_pdf run p d s =
     (case status of
        Exit0 \<Rightarrow>
          (if py_stem p @ ''.pdf'' \<in> set names then Inr (py_stem p @ ''.pdf'')
           else Inl FileNotFoundError, after_run s d names (libreoffice_cmd p d))
      | ExitNonzero \<Rightarrow> (Inl CalledProcessError, after_run s d names (libreoffice_cmd p d))
      | Timeout \<Rightarrow> (Inl TimeoutExpired, after_run s d names (libreoffice_cmd p d))
      | ToolMissing \<Rightarrow> (Inl FileNotFoundError, s))"
  by (simp add: convert_pptx_to_pdf_def
      subprocess_run_outcome [of run s "libreoffice_cmd p d" d status names, OF assms]
      split: exit_status.splits)

lemma convert_pdf_outcome:
  assumes "run (length (tool_runs s)) (convert_cmd (joinpath PRESENTATIONS_DIR f) (get_cache_path f))
      (cache_listing s (get_cache_path f)) = (status, names)"
  shows "convert_pdf run f s =
     (case status of
        Exit0 \<Rightarrow>
          (sort (glob_slides names),
           after_run (mkdir_cache (get_cache_path f) s) (get_cache_path f) names
             (convert_cmd (joinpath PRESENTATIONS_DIR f) (get_cache_path f)))
      | ExitNonzero \<Rightarrow>
          ([], after_run (mkdir_cache (get_cache_path f) s) (get_cache_path f) names
             (convert_cmd (joinpath PRESENTATIONS_DIR f) (get_cache_path f)))
      | Timeout \<Rightarrow>
          ([], after_run (mkdir_cache (get_cache_path f) s) (get_cache_path f) names
             (convert_cmd (joinpath PRESENTATIONS_DIR f) (get_cache_path f)))
      | ToolMissing \<Rightarrow> ([], mkdir_cache (get_cache_path f) s))"
proof -
  from assms have "run (length (tool_runs (mkdir_cache (get_cache_path f) s)))
      (convert_cmd (joinpath PRESENTATIONS_DIR f) (get_cache_path f))
      (cache_listing (mkdir_cache (get_cache_path f) s) (get_cache_path f)) = (status, names)"
    by simp
  from convert_pdf_to_png_outcome [of run "mkdir_cache (get_cache_path f) s"
      "joinpath PRESENTATIONS_DIR f" "get_cache_path f" status names, OF this]
  show ?thesis
    by (simp add: convert_pdf_def Let_def sort_eq_Nil_iff split: exit_status.splits)
qed

lemma convert_pptx_first_stage:
  assumes r1: "run (length (tool_runs s)) (libreoffice_cmd f (get_cache_path f))
      (cache_listing s (get_cache_path f)) = (status1, names1)"
  shows "convert_pptx_to_pdf run f (get_cache_path f) (mkdir_cache (get_cache_path f) s) =
     (case status1 of
        Exit0 \<Rightarrow>
          (if py_stem f @ ''.pdf'' \<in> set names1 then Inr (py_stem f @ ''.pdf'')
           else Inl FileNotFoundError,
           after_run (mkdir_cache (get_cache_path f) s) (get_cache_path f) names1
             (libreoffice_cmd f (get_cache_path f)))
      | ExitNonzero \<Rightarrow>
          (Inl CalledProcessError,
           after_run (mkdir_cache (get_cache_path f) s) (get_cache_path f) names1
             (libreoffice_cmd f (get_cache_path f)))
      | Timeout \<Rightarrow>
          (Inl TimeoutExpired,
           after_run (mkdir_cache (get_cache_path f) s) (get_cache_path f) names1
             (libreoffice_cmd f (get_cache_path f)))
      | ToolMissing \<Rightarrow> (Inl FileNotFoundError, mkdir_cache (get_cache_path f) s))"
proof -
  from r1 have "run (length (tool_runs (mkdir_cache (get_cache_path f) s)))
      (libreoffice_cmd f (get_cache_path f))
      (cache_listing (mkdir_cache (get_cache_path f) s) (get_cache_path f)) = (status1, names1)"
    by simp
  from convert_pptx_to_pdf_outcome [of run "mkdir_cache (get_cache_path f) s" f
      "get_cache_path f" status1 names1, OF this]
  show ?thesis .
qed

lemma convert_pptx_stage1_failure:
  assumes r1: "run (length (tool_runs s)) (libreoffice_cmd f (get_cache_path f))
      (cache_listing s (get_cache_path f)) = (status1, names1)"
    and fail: "status1 = ExitNonzero \<or> status1 = Timeout
       \<or> (status1 = Exit0 \<and> py_stem f @ ''.pdf'' \<notin> set names1)"
  shows "convert_pptx run f s =
     ([], after_run (mkdir_cache (get_cache_path f) s) (get_cache_path f) names1
            (libreoffice_cmd f (get_cache_path f)))"
  using fail
  by (auto simp: convert_pptx_def Let_def
      convert_pptx_first_stage [of run s f status1 names1, OF r1])

lemma convert_pptx_stage2_failure:
  assumes r1: "run (length (tool_runs s)) (libreoffice_cmd f (get_cache_path f))
      (cache_listing s (get_cache_path f)) = (Exit0, names1)"
    and pdf: "py_stem f @ ''.pdf'' \<in> set names1"
    and r2: "run (Suc (length (tool_runs s)))
      (convert_cmd (joinpath (joinpath SLIDES_CACHE_DIR (get_cache_path f)) (py_stem f @ ''.pdf''))
         (get_cache_path f)) names1 = (status2, names2)"
    and fail: "status2 = ExitNonzero \<or> status2 = Timeout
       \<or> (status2 = Exit0 \<and> glob_slides names2 = [])"
  shows "convert_pptx run f s =
     ([], after_run
            (after_run (mkdir_cache (get_cache_path f) s) (get_cache_path f) names1
               (libreoffice_cmd f (get_cache_path f)))
            (get_cache_path f) names2
            (convert_cmd (joinpath (joinpath SLIDES_CACHE_DIR (get_cache_path f))
               (py_stem f @ ''.pdf'')) (get_cache_path f)))"
proof -
  let ?c = "get_cache_path f"
  let ?s1 = "after_run (mkdir_cache ?c s) ?c names1 (libreoffice_cmd f ?c)"
  let ?p = "joinpath (joinpath SLIDES_CACHE_DIR ?c) (py_stem f @ ''.pdf'')"
  from r2 have "run (length (tool_runs ?s1)) (convert_cmd ?p ?c) (cache_listing ?s1 ?c)
      = (status2, names2)"
    by simp
  note st2 = convert_pdf_to_png_outcome [of run ?s1 ?p ?c status2 names2, OF this]
  from pdf have st1: "convert_pptx_to_pdf run f ?c (mkdir_cache ?c s)
      = (Inr (py_stem f @ ''.pdf''), ?s1)"
    by (simp add: convert_pptx_first_stage [of run s f Exit0 names1, OF r1])
  from fail show ?thesis
    by (auto simp: convert_pptx_def Let_def st1 st2)
qed

text \<open>
  Claim C6, as the code has it. A conversion that fails returns the empty list: for a PDF,
  when ImageMagick exits nonzero, times out, is missing or leaves no slide image; for a
  slide deck, when LibreOffice does so or leaves no PDF, or ImageMagick fails in turn.
  The cache directory exists afterwards (it is created first) and holds what the tools
  left: nothing is removed. When the failure is that no slide image was written, the
  entry is not cached. After a nonzero exit or a timeout the entry is cached exactly when
  the listing the tool left holds a slide image.
\<close>

theorem failed_conversion_leaves_tool_output:
  "(run (length (tool_runs s)) (convert_cmd (joinpath PRESENTATIONS_DIR f) (get_cache_path f))
        (cache_listing s (get_cache_path f)) = (status, names) \<longrightarrow>
      map_of (slides_cache (snd (convert_pdf run f s))) (get_cache_path f) \<noteq> None
      \<and> (status \<noteq> Exit0 \<or> glob_slides names = [] \<longrightarrow> fst (convert_pdf run f s) = [])
      \<and> (status = Exit0 \<and> glob_slides names = [] \<longrightarrow> \<not> is_cached (snd (convert_pdf run f s)) f)
      \<and> (status = ExitNonzero \<or> status = Timeout \<longrightarrow>
           cache_listing (snd (convert_pdf run f s)) (get_cache_path f) = names
           \<and> (is_cached (snd (convert_pdf run f s)) f \<longleftrightarrow> glob_slides names \<noteq> []))
      \<and> (status = ToolMissing \<longrightarrow> snd (convert_pdf run f s) = mkdir_cache (get_cache_path f) s))
   \<and> (run (length (tool_runs s)) (libreoffice_cmd f (get_cache_path f))
        (cache_listing s (get_cache_path f)) = (status1, names1)
      \<and> (status1 = ExitNonzero \<or> status1 = Timeout
         \<or> (status1 = Exit0 \<and> py_stem f @ ''.pdf'' \<notin> set names1)) \<longrightarrow>
      fst (convert_pptx run f s) = []
      \<and> cache_listing (snd (convert_pptx run f s)) (get_cache_path f) = names1
      \<and> (is_cached (snd (convert_pptx run f s)) f \<longleftrightarrow> glob_slides names1 \<noteq> []))
   \<and> (run (length (tool_runs s)) (libreoffice_cmd f (get_cache_path f))
        (cache_listing s (get_cache_path f)) = (Exit0, names1)
      \<and> py_stem f @ ''.pdf'' \<in> set names1
      \<and> run (Suc (length (tool_runs s)))
          (convert_cmd (joinpath (joinpath SLIDES_CACHE_DIR (get_cache_path f))
             (py_stem f @ ''.pdf'')) (get_cache_path f)) names1 = (status2, names2)
      \<and> (status2 = ExitNonzero \<or> status2 = Timeout
         \<or> (status2 = Exit0 \<and> glob_slides names2 = [])) \<longrightarrow>
      fst (convert_pptx run f s) = []
      \<and> cache_listing (snd (convert_pptx run f s)) (get_cache_path f) = names2
      \<and> (is_cached (snd (convert_pptx run f s)) f \<longleftrightarrow> glob_slides names2 \<noteq> []))"
proof (intro conjI impI)
  assume r: "run (length (tool_runs s)) (convert_cmd (joinpath PRESENTATIONS_DIR f) (get_cache_path f))
        (cache_listing s (get_cache_path f)) = (status, names)"
  note out = convert_pdf_outcome [of run s f status names, OF r]
  show "map_of (slides_cache (snd (convert_pdf run f s))) (get_cache_path f) \<noteq> None"
    by (cases status) (simp_all add: out mkdir_cache_exists)
  show "fst (convert_pdf run f s) = []" if "status \<noteq> Exit0 \<or> glob_slides names = []"
    using that by (cases status) (simp_all add: out)
  show "\<not> is_cached (snd (convert_pdf run f s)) f" if "status = Exit0 \<and> glob_slides names = []"
    using that by (simp add: out is_cached_after_run)
  show "cache_listing (snd (convert_pdf run f s)) (get_cache_path f) = names"
    if "status = ExitNonzero \<or> status = Timeout"
    using that by (auto simp: out)
  show "is_cached (snd (convert_pdf run f s)) f \<longleftrightarrow> glob_slides names \<noteq> []"
    if "status = ExitNonzero \<or> status = Timeout"
    using that by (auto simp: out is_cached_after_run)
  show "snd (convert_pdf run f s) = mkdir_cache (get_cache_path f) s" if "status = ToolMissing"
    using that by (simp add: out)
next
  assume a: "run (length (tool_runs s)) (libreoffice_cmd f (get_cache_path f))
        (cache_listing s (get_cache_path f)) = (status1, names1)
      \<and> (status1 = ExitNonzero \<or> status1 = Timeout
         \<or> (status1 = Exit0 \<and> py_stem f @ ''.pdf'' \<notin> set names1))"
  then have out: "convert_pptx run f s =
     ([], after_run (mkdir_cache (get_cache_path f) s) (get_cache_path f) names1
            (libreoffice_cmd f (get_cache_path f)))"
    by (intro convert_pptx_stage1_failure [of run s f status1 names1]) simp_all
  show "fst (convert_pptx run f s) = []" by (simp add: out)
  show "cache_listing (snd (convert_pptx run f s)) (get_cache_path f) = names1"
    by (simp add: out)
  show "is_cached (snd (convert_pptx run f s)) f \<longleftrightarrow> glob_slides names1 \<noteq> []"
    by (simp add: out is_cached_after_run)
next
  assume a: "run (length (tool_runs s)) (libreoffice_cmd f (get_cache_path f))
        (cache_listing s (get_cache_path f)) = (Exit0, names1)
      \<and> py_stem f @ ''.pdf'' \<in> set names1
      \<and> run (Suc (length (tool_runs s)))
          (convert_cmd (joinpath (joinpath SLIDES_CACHE_DIR (get_cache_path f))
             (py_stem f @ ''.pdf'')) (get_cache_path f)) names1 = (status2, names2)
      \<and> (status2 = ExitNonzero \<or> status2 = Timeout
         \<or> (status2 = Exit0 \<and> glob_slides names2 = []))"
  then have out: "convert_pptx run f s =
     ([], after_run
            (after_run (mkdir_cache (get_cache_path f) s) (get_cache_path f) names1
               (libreoffice_cmd f (get_cache_path f)))
            (get_cache_path f) names2
            (convert_cmd (joinpath (joinpath SLIDES_CACHE_DIR (get_cache_path f))
               (py_stem f @ ''.pdf'')) (get_cache_path f)))"
    by (intro convert_pptx_stage2_failure [of run s f names1 status2 names2]) simp_all
  show "fst (convert_pptx run f s) = []" by (simp add: out)
  show "cache_listing (snd (convert_pptx run f s)) (get_cache_path f) = names2"
    by (simp add: out)
  show "is_cached (snd (convert_pptx run f s)) f \<longleftrightarrow> glob_slides names2 \<noteq> []"
    by (simp add: out is_cached_after_run)
qed

theorem failed_conversion_counterexample:
  "convert_pptx timeout_midway_tool ''deck.pptx'' blank_fs =
     ([], blank_fs\<lparr>slides_cache := [(''deck'', [''deck.pdf'', ''slide_000.png''])],
            tool_runs := [libreoffice_cmd ''deck.pptx'' ''deck'',
              convert_cmd ''~/signage/cache/slides/deck/deck.pdf'' ''deck'']\<rparr>)
   \<and> is_cached (snd (convert_pptx timeout_midway_tool ''deck.pptx'' blank_fs)) ''deck.pptx''
   \<and> get_slides timeout_midway_tool ''deck.pptx''
        (snd (convert_pptx timeout_midway_tool ''deck.pptx'' blank_fs))
      = ([''~/signage/cache/slides/deck/slide_000.png''],
         snd (convert_pptx timeout_midway_tool ''deck.pptx'' blank_fs))"
  by (simp add: conversion_defs timeout_midway_tool_def)

theorem failed_conversion_leaves_tool_output_witness:
  "timeout_midway_tool (length (tool_runs blank_fs))
      (convert_cmd (joinpath PRESENTATIONS_DIR ''deck.pdf'') (get_cache_path ''deck.pdf''))
      (cache_listing blank_fs (get_cache_path ''deck.pdf'')) = (Timeout, [''slide_000.png''])
   \<and> fst (convert_pdf timeout_midway_tool ''deck.pdf'' blank_fs) = []
   \<and> is_cached (snd (convert_pdf timeout_midway_tool ''deck.pdf'' blank_fs)) ''deck.pdf''
   \<and> fst (convert_pdf (\<lambda>n cmd names. (Exit0, names)) ''deck.pdf'' blank_fs) = []
   \<and> \<not> is_cached (snd (convert_pdf (\<lambda>n cmd names. (Exit0, names)) ''deck.pdf'' blank_fs)) ''deck.pdf''
   \<and> failing_once_tool (length (tool_runs blank_fs))
      (libreoffice_cmd ''deck.pptx'' (get_cache_path ''deck.pptx''))
      (cache_listing blank_fs (get_cache_path ''deck.pptx'')) = (ExitNonzero, [])
   \<and> fst (convert_pptx failing_once_tool ''deck.pptx'' blank_fs) = []
   \<and> \<not> is_cached (snd (convert_pptx failing_once_tool ''deck.pptx'' blank_fs)) ''deck.pptx''
   \<and> timeout_midway_tool (Suc (length (tool_runs blank_fs)))
      (convert_cmd (joinpath (joinpath SLIDES_CACHE_DIR (get_cache_path ''deck.pptx''))
         (py_stem ''deck.pptx'' @ ''.pdf'')) (get_cache_path ''deck.pptx'')) [''deck.pdf'']
      = (Timeout, [''deck.pdf'', ''slide_000.png''])
   \<and> fst (convert_pptx timeout_midway_tool ''deck.pptx'' blank_fs) = []
   \<and> cache_listing (snd (convert_pptx timeout_midway_tool ''deck.pptx'' blank_fs))
        (get_cache_path ''deck.pptx'') = [''deck.pdf'', ''slide_000.png'']
   \<and> is_cached (snd (convert_pptx timeout_midway_tool ''deck.pptx'' blank_fs)) ''deck.pptx''"
proof -
  have h1: "timeout_midway_tool (length (tool_runs blank_fs))
      (convert_cmd (joinpath PRESENTATIONS_DIR ''deck.pdf'') (get_cache_path ''deck.pdf''))
      (cache_listing blank_fs (get_cache_path ''deck.pdf'')) = (Timeout, [''slide_000.png''])"
    by (simp add: timeout_midway_tool_def convert_cmd_def cache_listing_def blank_fs_def)
  have h2: "(\<lambda>n cmd names. (Exit0, names)) (length (tool_runs blank_fs))
      (convert_cmd (joinpath PRESENTATIONS_DIR ''deck.pdf'') (get_cache_path ''deck.pdf''))
      (cache_listing blank_fs (get_cache_path ''deck.pdf'')) = (Exit0, [])"
    by (simp add: cache_listing_def blank_fs_def)
  have h3: "failing_once_tool (length (tool_runs blank_fs))
      (libreoffice_cmd ''deck.pptx'' (get_cache_path ''deck.pptx''))
      (cache_listing blank_fs (get_cache_path ''deck.pptx'')) = (ExitNonzero, [])"
    by (simp add: failing_once_tool_def cache_listing_def blank_fs_def)
  have h4: "timeout_midway_tool (length (tool_runs blank_fs))
      (libreoffice_cmd ''deck.pptx'' (get_cache_path ''deck.pptx''))
      (cache_listing blank_fs (get_cache_path ''deck.pptx'')) = (Exit0, [''deck.pdf''])"
    by (simp add: timeout_midway_tool_def libreoffice_cmd_def cache_listing_def blank_fs_def)
  have h5: "timeout_midway_tool (Suc (length (tool_runs blank_fs)))
      (convert_cmd (joinpath (joinpath SLIDES_CACHE_DIR (get_cache_path ''deck.pptx''))
         (py_stem ''deck.pptx'' @ ''.pdf'')) (get_cache_path ''deck.pptx'')) [''deck.pdf'']
      = (Timeout, [''deck.pdf'', ''slide_000.png''])"
    by (simp add: timeout_midway_tool_def convert_cmd_def)
  have h6: "py_stem ''deck.pptx'' @ ''.pdf'' \<in> set [''deck.pdf'']"
    by (simp add: py_stem_def)
  have g: "glob_slides [''slide_000.png''] \<noteq> []" "glob_slides [''deck.pdf'', ''slide_000.png''] \<noteq> []"
    "glob_slides [] = []"
    by (simp_all add: glob_slides_def suffix_to_prefix)
  from h1 h2 h3 h4 h5 h6 g
    failed_conversion_leaves_tool_output
      [of timeout_midway_tool blank_fs "''deck.pdf''" Timeout "[''slide_000.png'']"
        Exit0 "[]" Exit0 "[]"]
    failed_conversion_leaves_tool_output
      [of "\<lambda>n cmd names. (Exit0, names)" blank_fs "''deck.pdf''" Exit0 "[]" Exit0 "[]" Exit0 "[]"]
    failed_conversion_leaves_tool_output
      [of failing_once_tool blank_fs "''deck.pptx''" Exit0 "[]" ExitNonzero "[]" Exit0 "[]"]
    failed_conversion_leaves_tool_output
      [of timeout_midway_tool blank_fs "''deck.pptx''" Exit0 "[]" Exit0 "[''deck.pdf'']"
        Timeout "[''deck.pdf'', ''slide_000.png'']"]
  show ?thesis
    by simp
qed

subsection \<open>Resolution keeps the order of the entries and repeats each one in place\<close>

lemma repeat_video_eq: "repeat_video n v playlist_items = playlist_items @ replicate n v"
  by (induction n arbitrary: playlist_items) (simp_all add: replicate_append_same)

lemma append_slides_eq:
  "append_slides slides playlist_items = playlist_items @ map slide_item slides"
  by (induction slides arbitrary: playlist_items) simp_all

lemma repeat_slides_eq:
  "repeat_slides n slides playlist_items =
     playlist_items @ occurrences n (map slide_item slides)"
  by (induction n arbitrary: playlist_items) (simp_all add: append_slides_eq occurrences_def)

lemma occurrences_single: "occurrences n [v] = replicate n v"
  by (induction n) (simp_all add: occurrences_def)

lemma occurrences_Nil [simp]: "occurrences n [] = []"
  by (simp add: occurrences_def)

lemma string_named_iff: "string_named e \<longleftrightarrow> (\<exists>n. entry_name e = JStr n)"
  by (cases "entry_name e") (simp_all add: string_named_def)

lemma entry_blocks_Cons:
  "entry_blocks run vm pm (e # rest) s =
     (occurrences (nat (entry_repeats e)) (fst (entry_unit run vm pm e s))
        # fst (entry_blocks run vm pm rest (snd (entry_unit run vm pm e s))),
      snd (entry_blocks run vm pm rest (snd (entry_unit run vm pm e s))))"
  by (simp add: split_beta)

lemma resolve_selected_step:
  assumes "string_named e"
  shows "resolve_selected run vm pm (e # rest) playlist_items s =
     resolve_selected run vm pm rest
       (playlist_items @ occurrences (nat (entry_repeats e)) (fst (entry_unit run vm pm e s)))
       (snd (entry_unit run vm pm e s))"
proof -
  from assms obtain n where n: "entry_name e = JStr n"
    by (auto simp: string_named_iff)
  show ?thesis
    by (simp add: n entry_unit_def repeat_video_eq repeat_slides_eq occurrences_single
        split_beta)
qed

lemma resolve_selected_blocks:
  assumes "\<forall>e \<in> set es. string_named e"
  shows "resolve_selected run vm pm es playlist_items s =
     (Inr (playlist_items @ concat (fst (entry_blocks run vm pm es s))),
      snd (entry_blocks run vm pm es s))"
  using assms
proof (induction es arbitrary: playlist_items s)
  case Nil
  show ?case by simp
next
  case (Cons e rest)
  from Cons.prems have e: "string_named e" and rest: "\<forall>e \<in> set rest. string_named e"
    by simp_all
  show ?case
    unfolding resolve_selected_step [OF e] entry_blocks_Cons
    by (simp add: Cons.IH [OF rest])
qed

lemma length_entry_blocks: "length (fst (entry_blocks run vm pm es s)) = length es"
  by (induction es arbitrary: s) (simp_all add: split_beta)

lemma entry_blocks_nth:
  "i < length es \<Longrightarrow>
     \<exists>s'. fst (entry_blocks run vm pm es s) ! i =
       occurrences (nat (entry_repeats (es ! i))) (fst (entry_unit run vm pm (es ! i) s'))"
proof (induction es arbitrary: i s)
  case Nil
  then show ?case by simp
next
  case (Cons e rest)
  show ?case
  proof (cases i)
    case 0
    then show ?thesis
      unfolding entry_blocks_Cons by auto
  next
    case (Suc j)
    with Cons.prems have "j < length rest" by simp
    from Cons.IH [OF this, of "snd (entry_unit run vm pm e s)"] Suc show ?thesis
      unfolding entry_blocks_Cons by simp
  qed
qed

lemma entry_unit_video:
  assumes "entry_name e = JStr n" and "n \<noteq> []" and "n \<in> set vm"
  shows "fst (entry_unit run vm pm e s) = [video_item n]"
  using assms by (simp add: entry_unit_def)

lemma entry_unit_document:
  assumes "entry_name e = JStr n" and "n \<noteq> []" and "n \<notin> set vm" and "n \<in> set pm"
  shows "fst (entry_unit run vm pm e s) = map slide_item (fst (get_slides run n s))"
  using assms by (simp add: entry_unit_def split_beta)

lemma entry_unit_orphan:
  assumes "entry_name e = JStr n" and "n \<notin> set vm" and "n \<notin> set pm"
  shows "entry_unit run vm pm e s = ([], s)"
  using assms by (simp add: entry_unit_def)

lemma web_repeat_video_eq: "web_repeat_video n v playlist = playlist @ replicate n v"
  by (induction n arbitrary: playlist) (simp_all add: replicate_append_same)

lemma web_append_slides_eq:
  "web_append_slides stem slides playlist = playlist @ map (web_slide stem) slides"
  by (induction slides arbitrary: playlist) simp_all

lemma web_repeat_slides_eq:
  "web_repeat_slides n stem s playlist =
     playlist @ occurrences n (map (web_slide stem) (sort (glob_slides (cache_listing s stem))))"
  by (induction n arbitrary: playlist) (simp_all add: web_append_slides_eq occurrences_def)

lemma cache_listing_missing:
  "map_of (slides_cache s) stem = None \<Longrightarrow> cache_listing s stem = []"
  by (simp add: cache_listing_def)

lemma web_resolve_selected_step:
  assumes "string_named e"
  shows "web_resolve_selected vf (e # rest) playlist s =
     web_resolve_selected vf rest (playlist @ web_block vf s e) s"
proof -
  from assms obtain n where n: "entry_name e = JStr n"
    by (auto simp: string_named_iff)
  show ?thesis
    by (auto simp: n web_block_def web_repeat_video_eq web_repeat_slides_eq occurrences_single
        Let_def cache_listing_missing glob_slides_def)
qed

lemma web_resolve_selected_blocks:
  assumes "\<forall>e \<in> set es. string_named e"
  shows "web_resolve_selected vf es playlist s = Inr (playlist @ concat (map (web_block vf s) es))"
  using assms
proof (induction es arbitrary: playlist)
  case Nil
  show ?case by simp
next
  case (Cons e rest)
  from Cons.prems have e: "string_named e" and rest: "\<forall>e \<in> set rest. string_named e"
    by simp_all
  show ?case
    unfolding web_resolve_selected_step [OF e]
    by (simp add: Cons.IH [OF rest])
qed

text \<open>
  Claim C2. For a sequence of playlist entries named by strings and a fixed directory
  listing, the resolved sequence is the concatenation, in the order of the entries, of
  one block per entry, and the block of an entry with repeats \<open>n\<close> is \<open>n\<close> contiguous
  occurrences of its unit: the video item for an entry that names a video, the whole
  slide sequence for an entry that names a document, nothing for an entry without a
  file. This holds for the loop of the local player and for the loop of the web player,
  and for both functions whenever the ordering file yields such entries.
\<close>

theorem resolved_sequence_keeps_order_and_repeats:
  "((\<forall>e \<in> set es. string_named e) \<longrightarrow>
      resolve_selected run vm pm es [] s =
        (Inr (concat (fst (entry_blocks run vm pm es s))), snd (entry_blocks run vm pm es s))
      \<and> web_resolve_selected vf es [] s = Inr (concat (map (web_block vf s) es)))
   \<and> length (fst (entry_blocks run vm pm es s)) = length es
   \<and> (i < length es \<longrightarrow>
        (\<exists>s'. fst (entry_blocks run vm pm es s) ! i =
           occurrences (nat (entry_repeats (es ! i))) (fst (entry_unit run vm pm (es ! i) s'))))
   \<and> (entry_name e = JStr n \<and> n \<noteq> [] \<and> n \<in> set vm \<longrightarrow>
        fst (entry_unit run vm pm e s') = [video_item n])
   \<and> (entry_name e = JStr n \<and> n \<noteq> [] \<and> n \<notin> set vm \<and> n \<in> set pm \<longrightarrow>
        fst (entry_unit run vm pm e s') = map slide_item (fst (get_slides run n s')))
   \<and> (entry_name e = JStr n \<and> n \<noteq> [] \<and> n \<in> set vf \<longrightarrow>
        web_block vf s e = replicate (nat (entry_repeats e)) (web_video n))
   \<and> (entry_name e = JStr n \<and> n \<noteq> [] \<and> n \<notin> set vf \<longrightarrow>
        web_block vf s e =
          occurrences (nat (entry_repeats e))
            (map (web_slide (py_stem (py_name n)))
               (sort (glob_slides (cache_listing s (py_stem (py_name n)))))))
   \<and> (selected_entries str_to_int (playlist_json s) = es \<and> es \<noteq> []
        \<and> (\<forall>e \<in> set es. string_named e) \<longrightarrow>
        build_playlist_items str_to_int run s =
          (Inr (concat (fst (entry_blocks run (get_video_files s) (get_presentation_files s) es s))),
           snd (entry_blocks run (get_video_files s) (get_presentation_files s) es s))
        \<and> get_playlist_uncached str_to_int s =
          Inr (concat (map (web_block (web_get_video_files s) s) es)))"
proof (intro conjI impI)
  assume a: "\<forall>e \<in> set es. string_named e"
  from resolve_selected_blocks [OF a, of run vm pm "[]" s]
  show "resolve_selected run vm pm es [] s =
        (Inr (concat (fst (entry_blocks run vm pm es s))), snd (entry_blocks run vm pm es s))"
    by simp
  from web_resolve_selected_blocks [OF a, of vf "[]" s]
  show "web_resolve_selected vf es [] s = Inr (concat (map (web_block vf s) es))"
    by simp
next
  show "length (fst (entry_blocks run vm pm es s)) = length es"
    by (rule length_entry_blocks)
next
  assume "i < length es"
  then show "\<exists>s'. fst (entry_blocks run vm pm es s) ! i =
           occurrences (nat (entry_repeats (es ! i))) (fst (entry_unit run vm pm (es ! i) s'))"
    by (rule entry_blocks_nth)
next
  assume "entry_name e = JStr n \<and> n \<noteq> [] \<and> n \<in> set vm"
  then show "fst (entry_unit run vm pm e s') = [video_item n]"
    by (simp add: entry_unit_video)
next
  assume "entry_name e = JStr n \<and> n \<noteq> [] \<and> n \<notin> set vm \<and> n \<in> set pm"
  then show "fst (entry_unit run vm pm e s') = map slide_item (fst (get_slides run n s'))"
    by (simp add: entry_unit_document)
next
  assume "entry_name e = JStr n \<and> n \<noteq> [] \<and> n \<in> set vf"
  then show "web_block vf s e = replicate (nat (entry_repeats e)) (web_video n)"
    by (simp add: web_block_def occurrences_single)
next
  assume "entry_name e = JStr n \<and> n \<noteq> [] \<and> n \<notin> set vf"
  then show "web_block vf s e =
          occurrences (nat (entry_repeats e))
            (map (web_slide (py_stem (py_name n)))
               (sort (glob_slides (cache_listing s (py_stem (py_name n))))))"
    by (simp add: web_block_def)
next
  assume a: "selected_entries str_to_int (playlist_json s) = es \<and> es \<noteq> []
        \<and> (\<forall>e \<in> set es. string_named e)"
  then have named: "\<forall>e \<in> set es. string_named e" by simp
  from a resolve_selected_blocks [OF named, of run "get_video_files s"
      "get_presentation_files s" "[]" s]
  show "build_playlist_items str_to_int run s =
          (Inr (concat (fst (entry_blocks run (get_video_files s) (get_presentation_files s) es s))),
           snd (entry_blocks run (get_video_files s) (get_presentation_files s) es s))"
    by (simp add: build_playlist_items_def)
  from a web_resolve_selected_blocks [OF named, of "web_get_video_files s" "[]" s]
  show "get_playlist_uncached str_to_int s =
          Inr (concat (map (web_block (web_get_video_files s) s) es))"
    by (simp add: get_playlist_uncached_def)
qed

lemmas listing_defs =
  get_video_files_def get_presentation_files_def web_get_video_files_def glob_formats_def
  glob_ext_def VIDEO_FORMATS_def upper_def ascii_upper_def listing_def VIDEOS_DIR_def

lemma demo_selected:
  "selected_entries (\<lambda>s. None) (playlist_json demo_fs) =
     [\<lparr>entry_name = JStr ''deck.pdf'', entry_repeats = 2\<rparr>,
      \<lparr>entry_name = JStr ''a.mp4'', entry_repeats = 1\<rparr>]"
  by (simp add: demo_fs_def selected_entries_def normalize_entry_def dict_get_def
      dict_get_default_def py_or_def)

lemma demo_files:
  "get_video_files demo_fs = [''a.mp4'']"
  "get_presentation_files demo_fs = [''deck.pdf'']"
  "web_get_video_files demo_fs = [''a.mp4'']"
  by (simp_all add: demo_fs_def listing_defs PPT_FORMATS_def PDF_FORMATS_def suffix_to_prefix)

lemma demo_blocks:
  "entry_blocks working_tool [''a.mp4''] [''deck.pdf'']
     [\<lparr>entry_name = JStr ''deck.pdf'', entry_repeats = 2\<rparr>,
      \<lparr>entry_name = JStr ''a.mp4'', entry_repeats = 1\<rparr>] demo_fs =
     ([[slide_item ''~/signage/cache/slides/deck/slide_000.png'',
        slide_item ''~/signage/cache/slides/deck/slide_001.png'',
        slide_item ''~/signage/cache/slides/deck/slide_000.png'',
        slide_item ''~/signage/cache/slides/deck/slide_001.png''],
       [video_item ''a.mp4'']], demo_fs)"
  by (simp add: entry_unit_def occurrences_def conversion_defs demo_fs_def numeral_2_eq_2)

lemma demo_web_blocks:
  "map (web_block [''a.mp4''] demo_fs)
     [\<lparr>entry_name = JStr ''deck.pdf'', entry_repeats = 2\<rparr>,
      \<lparr>entry_name = JStr ''a.mp4'', entry_repeats = 1\<rparr>] =
     [[web_slide ''deck'' ''slide_000.png'', web_slide ''deck'' ''slide_001.png'',
       web_slide ''deck'' ''slide_000.png'', web_slide ''deck'' ''slide_001.png''],
      [web_video ''a.mp4'']]"
  by (simp add: web_block_def occurrences_def py_name_def py_stem_def cache_listing_def
      glob_slides_def suffix_to_prefix demo_fs_def numeral_2_eq_2)

theorem resolved_sequence_keeps_order_and_repeats_witness:
  "selected_entries (\<lambda>s. None) (playlist_json demo_fs) =
     [\<lparr>entry_name = JStr ''deck.pdf'', entry_repeats = 2\<rparr>,
      \<lparr>entry_name = JStr ''a.mp4'', entry_repeats = 1\<rparr>]
   \<and> build_playlist_items (\<lambda>s. None) working_tool demo_fs =
     (Inr [slide_item ''~/signage/cache/slides/deck/slide_000.png'',
           slide_item ''~/signage/cache/slides/deck/slide_001.png'',
           slide_item ''~/signage/cache/slides/deck/slide_000.png'',
           slide_item ''~/signage/cache/slides/deck/slide_001.png'',
           video_item ''a.mp4''], demo_fs)
   \<and> get_playlist_uncached (\<lambda>s. None) demo_fs =
     Inr [web_slide ''deck'' ''slide_000.png'', web_slide ''deck'' ''slide_001.png'',
          web_slide ''deck'' ''slide_000.png'', web_slide ''deck'' ''slide_001.png'',
          web_video ''a.mp4'']
   \<and> fst (entry_unit working_tool [''a.mp4''] [''deck.pdf'']
        \<lparr>entry_name = JStr ''a.mp4'', entry_repeats = 1\<rparr> demo_fs) = [video_item ''a.mp4'']
   \<and> web_block [''a.mp4''] demo_fs \<lparr>entry_name = JStr ''a.mp4'', entry_repeats = 1\<rparr>
      = [web_video ''a.mp4'']"
proof -
  have named: "\<forall>e \<in> set [\<lparr>entry_name = JStr ''deck.pdf'', entry_repeats = 2\<rparr>,
      \<lparr>entry_name = JStr ''a.mp4'', entry_repeats = 1\<rparr>]. string_named e"
    by (simp add: string_named_def)
  from demo_selected demo_files demo_blocks demo_web_blocks named
    resolved_sequence_keeps_order_and_repeats
      [where es = "[\<lparr>entry_name = JStr ''deck.pdf'', entry_repeats = 2\<rparr>,
          \<lparr>entry_name = JStr ''a.mp4'', entry_repeats = 1\<rparr>]"
        and run = working_tool and s = demo_fs and str_to_int = "\<lambda>s. None"
        and vm = "[''a.mp4'']" and pm = "[''deck.pdf'']" and vf = "[''a.mp4'']"
        and e = "\<lparr>entry_name = JStr ''a.mp4'', entry_repeats = 1\<rparr>" and n = "''a.mp4''"
        and s' = demo_fs and i = 0]
  show ?thesis
    by simp
qed

subsection \<open>Entries without a backing file\<close>

lemma content_unchanged_refl [simp]: "content_unchanged s s"
  by (simp add: content_unchanged_def)

lemma content_unchanged_trans:
  "content_unchanged s s1 \<Longrightarrow> content_unchanged s1 s2 \<Longrightarrow> content_unchanged s s2"
  by (simp add: content_unchanged_def)

lemma content_unchanged_mkdir [simp]: "content_unchanged s (mkdir_cache stem s)"
  by (simp add: content_unchanged_def mkdir_cache_def split: option.splits)

lemma content_unchanged_subprocess_run:
  "subprocess_run run cmd stem s = (r, s1) \<Longrightarrow> content_unchanged s s1"
  by (auto simp: subprocess_run_def Let_def content_unchanged_def
      split: prod.splits exit_status.splits)

lemma content_unchanged_unlink:
  "unlink_cached stem name s = (r, s1) \<Longrightarrow> content_unchanged s s1"
  by (auto simp: unlink_cached_def content_unchanged_def split: if_splits)

lemma content_unchanged_pdf_to_png:
  "convert_pdf_to_png run p d s = (r, s1) \<Longrightarrow> content_unchanged s s1"
  by (auto simp: convert_pdf_to_png_def Let_def split: prod.splits sum.splits if_splits
      dest: content_unchanged_subprocess_run)

lemma content_unchanged_pptx_to_pdf:
  "convert_pptx_to_pdf run p d s = (r, s1) \<Longrightarrow> content_unchanged s s1"
  by (auto simp: convert_pptx_to_pdf_def Let_def split: prod.splits sum.splits if_splits
      dest: content_unchanged_subprocess_run)

lemma content_unchanged_convert_pdf: "content_unchanged s (snd (convert_pdf run f s))"
proof -
  obtain r s1 where c: "convert_pdf_to_png run (joinpath PRESENTATIONS_DIR f) (get_cache_path f)
      (mkdir_cache (get_cache_path f) s) = (r, s1)"
    by (cases "convert_pdf_to_png run (joinpath PRESENTATIONS_DIR f) (get_cache_path f)
      (mkdir_cache (get_cache_path f) s)")
  from content_unchanged_pdf_to_png [OF c] have "content_unchanged s s1"
    by (rule content_unchanged_trans [OF content_unchanged_mkdir])
  with c show ?thesis
    by (simp add: convert_pdf_def Let_def split: sum.splits)
qed

lemma content_unchanged_player_convert_pptx:
  "content_unchanged s (snd (player_convert_pptx run f s))"
proof -
  obtain r1 s1 where c1: "convert_pptx_to_pdf run f (get_cache_path f)
      (mkdir_cache (get_cache_path f) s) = (r1, s1)"
    by (cases "convert_pptx_to_pdf run f (get_cache_path f) (mkdir_cache (get_cache_path f) s)")
  from content_unchanged_pptx_to_pdf [OF c1] have u1: "content_unchanged s s1"
    by (rule content_unchanged_trans [OF content_unchanged_mkdir])
  show ?thesis
  proof (cases r1)
    case (Inl e)
    with c1 u1 show ?thesis by (simp add: player_convert_pptx_def Let_def)
  next
    case (Inr pdf)
    obtain r2 s2 where c2: "convert_pdf_to_png run
        (joinpath (joinpath SLIDES_CACHE_DIR (get_cache_path f)) pdf) (get_cache_path f) s1 = (r2, s2)"
      by (cases "convert_pdf_to_png run
        (joinpath (joinpath SLIDES_CACHE_DIR (get_cache_path f)) pdf) (get_cache_path f) s1")
    from content_unchanged_pdf_to_png [OF c2] u1 have u2: "content_unchanged s s2"
      by (metis content_unchanged_trans)
    obtain r3 s3 where c3: "unlink_cached (get_cache_path f) pdf s2 = (r3, s3)"
      by (cases "unlink_cached (get_cache_path f) pdf s2")
    from content_unchanged_unlink [OF c3] u2 have u3: "content_unchanged s s3"
      by (metis content_unchanged_trans)
    from c1 Inr c2 c3 u2 u3 show ?thesis
      by (simp add: player_convert_pptx_def Let_def split: sum.splits)
  qed
qed

lemma content_unchanged_get_slides:
  "content_unchanged s (snd (get_slides run f s))"
  using content_unchanged_player_convert_pptx [of s run f] content_unchanged_convert_pdf [of s run f]
  by (simp add: get_slides_def Let_def player_convert_presentation_def)

lemma content_unchanged_resolve_selected:
  "content_unchanged s (snd (resolve_selected run vm pm es playlist_items s))"
proof (induction es arbitrary: playlist_items s)
  case Nil
  show ?case by simp
next
  case (Cons e rest)
  have slides: "content_unchanged s (snd (resolve_selected run vm pm rest items'
      (snd (get_slides run p s))))" for items' p
    using content_unchanged_get_slides [of s run p] Cons.IH [where playlist_items = items' and s = "snd (get_slides run p s)"]
    by (rule content_unchanged_trans)
  show ?case
    by (simp add: Cons.IH slides split_beta split: sum.splits option.splits)
qed

lemma content_unchanged_all_presentations:
  "content_unchanged s (snd (all_presentations run ps playlist_items s))"
proof (induction ps arbitrary: playlist_items s)
  case Nil
  show ?case by simp
next
  case (Cons p rest)
  have "content_unchanged s (snd (all_presentations run rest items'
      (snd (get_slides run p s))))" for items'
    using content_unchanged_get_slides [of s run p] Cons.IH [where playlist_items = items' and s = "snd (get_slides run p s)"]
    by (rule content_unchanged_trans)
  then show ?case
    by (simp add: split_beta)
qed

lemma content_unchanged_build_playlist_items:
  "content_unchanged s (snd (build_playlist_items str_to_int run s))"
  by (simp add: build_playlist_items_def Let_def split_beta
      content_unchanged_resolve_selected content_unchanged_all_presentations)

lemma set_glob_formats: "set (glob_formats formats names) \<subseteq> set names"
  by (auto simp: glob_formats_def glob_ext_def)

lemma absent_not_video: "n \<notin> set (listing (videos_dir s)) \<Longrightarrow> n \<notin> set (get_video_files s)"
  using set_glob_formats [of VIDEO_FORMATS "listing (videos_dir s)"]
  by (auto simp: get_video_files_def)

lemma absent_not_presentation:
  "n \<notin> set (listing (presentations_dir s)) \<Longrightarrow> n \<notin> set (get_presentation_files s)"
  using set_glob_formats [of "PPT_FORMATS @ PDF_FORMATS" "listing (presentations_dir s)"]
  by (auto simp: get_presentation_files_def)

lemma resolve_selected_skips_orphan:
  assumes "entry_name e = JStr n" and "n \<notin> set vm" and "n \<notin> set pm"
  shows "resolve_selected run vm pm (before @ e # after) playlist_items s =
     resolve_selected run vm pm (before @ after) playlist_items s"
proof (induction before arbitrary: playlist_items s)
  case Nil
  from assms show ?case by simp
next
  case (Cons b before)
  show ?case
    by (simp add: Cons.IH split_beta split: sum.splits option.splits)
qed

lemma resolve_selected_only_orphans:
  assumes "\<forall>e \<in> set es. \<exists>n. entry_name e = JStr n \<and> n \<notin> set vm \<and> n \<notin> set pm"
  shows "resolve_selected run vm pm es playlist_items s = (Inr playlist_items, s)"
  using assms
proof (induction es)
  case Nil
  show ?case by simp
next
  case (Cons e rest)
  from Cons.prems obtain n where "entry_name e = JStr n" and "n \<notin> set vm" and "n \<notin> set pm"
    by auto
  from resolve_selected_skips_orphan [OF this, of run "[]" rest playlist_items s] Cons
  show ?case by simp
qed

lemma orphaned_not_listed:
  assumes o: "orphaned path_exists e" and l: "listed_exist path_exists s"
  shows "\<exists>n. entry_name e = JStr n \<and> n \<notin> set (get_video_files s)
     \<and> n \<notin> set (get_presentation_files s)"
proof -
  from o obtain n where n: "entry_name e = JStr n"
    and v: "path_exists VIDEOS_DIR n = Inr False"
    and p: "path_exists PRESENTATIONS_DIR n = Inr False"
    by (auto simp: orphaned_def split: json.splits)
  from l v have "n \<notin> set (listing (videos_dir s))"
    by (auto simp: listed_exist_def list_all_iff)
  then have nv: "n \<notin> set (get_video_files s)" by (rule absent_not_video)
  from l p have "n \<notin> set (listing (presentations_dir s))"
    by (auto simp: listed_exist_def list_all_iff)
  then have "n \<notin> set (get_presentation_files s)" by (rule absent_not_presentation)
  with n nv show ?thesis by simp
qed

lemma build_playlist_items_skips_orphan:
  assumes o: "orphaned path_exists e" and l: "listed_exist path_exists s"
    and sel: "selected_entries str_to_int (playlist_json s) = before @ e # after"
  shows "build_playlist_items str_to_int run s =
     resolve_selected run (get_video_files s) (get_presentation_files s) (before @ after) [] s"
proof -
  from orphaned_not_listed [OF o l] obtain n where "entry_name e = JStr n"
    and "n \<notin> set (get_video_files s)" and "n \<notin> set (get_presentation_files s)"
    by blast
  from resolve_selected_skips_orphan [OF this, of run before after "[]" s] show ?thesis
    by (simp add: build_playlist_items_def sel)
qed

lemma build_playlist_items_only_orphans:
  assumes ne: "selected_entries str_to_int (playlist_json s) \<noteq> []"
    and o: "list_all (orphaned path_exists) (selected_entries str_to_int (playlist_json s))"
    and l: "listed_exist path_exists s"
  shows "build_playlist_items str_to_int run s = (Inr [], s)"
proof -
  from o l have "\<forall>e \<in> set (selected_entries str_to_int (playlist_json s)).
      \<exists>n. entry_name e = JStr n \<and> n \<notin> set (get_video_files s)
        \<and> n \<notin> set (get_presentation_files s)"
    by (auto simp: list_all_iff dest: orphaned_not_listed)
  from resolve_selected_only_orphans [OF this, of run "[]" s] ne show ?thesis
    by (simp add: build_playlist_items_def)
qed

lemma item_exists_answered:
  assumes "answered path_exists e" and "truthy (entry_name e)"
  shows "item_exists path_exists (entry_name e) = Inr (has_file path_exists e)"
    and "orphaned path_exists e = (\<not> has_file path_exists e)"
proof -
  from assms obtain n where n: "entry_name e = JStr n" "n \<noteq> []"
    and "\<not> isl (path_exists VIDEOS_DIR n)" and "\<not> isl (path_exists PRESENTATIONS_DIR n)"
    by (cases "entry_name e") (auto simp: answered_def)
  then obtain bv bp where b: "path_exists VIDEOS_DIR n = Inr bv"
      "path_exists PRESENTATIONS_DIR n = Inr bp"
    by (cases "path_exists VIDEOS_DIR n"; cases "path_exists PRESENTATIONS_DIR n") simp_all
  from n b show "item_exists path_exists (entry_name e) = Inr (has_file path_exists e)"
    by (cases bv; cases bp) (simp_all add: item_exists_def has_file_def)
  from n b show "orphaned path_exists e = (\<not> has_file path_exists e)"
    by (cases bv; cases bp) (simp_all add: orphaned_def has_file_def)
qed

lemma not_truthy_no_file:
  assumes "answered path_exists e" and "\<not> truthy (entry_name e)"
  shows "\<not> has_file path_exists e" and "\<not> orphaned path_exists e"
  using assms
  by (cases "entry_name e"; simp add: answered_def has_file_def orphaned_def)+

lemma filter_loop_answered:
  assumes "\<forall>e \<in> set es. answered path_exists e"
  shows "filter_loop path_exists es valid_items removed_items =
     Inr (valid_items @ filter (has_file path_exists) es,
          removed_items @ map entry_name (filter (orphaned path_exists) es))"
  using assms
proof (induction es arbitrary: valid_items removed_items)
  case Nil
  show ?case by simp
next
  case (Cons e rest)
  from Cons.prems have a: "answered path_exists e"
    and rest: "\<forall>e \<in> set rest. answered path_exists e"
    by simp_all
  show ?case
  proof (cases "truthy (entry_name e)")
    case True
    from item_exists_answered [OF a True] True show ?thesis
      by (simp add: Cons.IH [OF rest])
  next
    case False
    from not_truthy_no_file [OF a False] False show ?thesis
      by (simp add: Cons.IH [OF rest])
  qed
qed

lemma normalize_entry_entry_json:
  assumes "entry_name e = JStr n" and "n \<noteq> []" and "1 \<le> entry_repeats e"
  shows "normalize_entry str_to_int (entry_json e) = [e]"
  using assms
  by (simp add: normalize_entry_def entry_json_def dict_get_def dict_get_default_def py_or_def)

lemma normalize_loop_entry_json:
  assumes "\<forall>e \<in> set es. has_file path_exists e \<and> 1 \<le> entry_repeats e"
  shows "normalize_loop str_to_int (map entry_json es) = es"
  using assms
proof (induction es)
  case Nil
  show ?case by simp
next
  case (Cons e rest)
  from Cons.prems have "has_file path_exists e" and r: "1 \<le> entry_repeats e" by simp_all
  then obtain n where "entry_name e = JStr n" and "n \<noteq> []"
    by (auto simp: has_file_def split: json.splits)
  then have "normalize_entry str_to_int (entry_json e) = [e]"
    using r by (rule normalize_entry_entry_json)
  with Cons show ?case by simp
qed

lemma normalize_written_playlist:
  assumes "\<forall>e \<in> set es. has_file path_exists e \<and> 1 \<le> entry_repeats e"
  shows "normalize_playlist_to_objects str_to_int (JList (map entry_json es)) = es"
  using normalize_loop_entry_json [OF assms, of str_to_int]
  by (cases es) (simp_all add: normalize_playlist_to_objects_def)

lemma normalize_playlist_repeats_ge_1:
  "e \<in> set (normalize_playlist_to_objects str_to_int raw) \<Longrightarrow> 1 \<le> entry_repeats e"
  by (auto simp: normalize_playlist_to_objects_def split: if_splits json.splits
      dest: normalize_loop_repeats_ge_1)

lemma has_file_not_orphaned: "has_file path_exists e \<Longrightarrow> \<not> orphaned path_exists e"
  by (auto simp: has_file_def orphaned_def split: json.splits)

lemma filter_valid_playlist_answered:
  assumes "\<forall>e \<in> set (normalize_playlist_to_objects str_to_int playlist). answered path_exists e"
  shows "filter_valid_playlist str_to_int path_exists playlist =
     Inr (filter (has_file path_exists) (normalize_playlist_to_objects str_to_int playlist),
          map entry_name (filter (orphaned path_exists)
            (normalize_playlist_to_objects str_to_int playlist)))"
  using filter_loop_answered [OF assms, of "[]" "[]"]
  by (simp add: filter_valid_playlist_def)

lemma dashboard_cleanup_answered:
  assumes "\<forall>e \<in> set (normalize_playlist_to_objects str_to_int (read_playlist (playlist_json s))).
      answered path_exists e"
  shows "dashboard_cleanup str_to_int path_exists writable s =
     (Inr (map entry_name (filter (orphaned path_exists)
             (normalize_playlist_to_objects str_to_int (read_playlist (playlist_json s))))),
      if filter (orphaned path_exists)
           (normalize_playlist_to_objects str_to_int (read_playlist (playlist_json s))) \<noteq> []
      then write_playlist writable (filter (has_file path_exists)
             (normalize_playlist_to_objects str_to_int (read_playlist (playlist_json s)))) s
      else s)"
  by (simp add: dashboard_cleanup_def filter_valid_playlist_answered [OF assms])

lemma dashboard_cleanup_after_write:
  assumes "\<forall>e \<in> set es. has_file path_exists e \<and> answered path_exists e \<and> 1 \<le> entry_repeats e"
  shows "dashboard_cleanup str_to_int path_exists writable (write_playlist True es s) =
     (Inr [], write_playlist True es s)"
proof -
  from assms have hf: "\<forall>e \<in> set es. has_file path_exists e \<and> 1 \<le> entry_repeats e"
    by simp
  have n: "normalize_playlist_to_objects str_to_int
      (read_playlist (playlist_json (write_playlist True es s))) = es"
    using normalize_written_playlist [OF hf, of str_to_int]
    by (simp add: write_playlist_def read_playlist_def)
  from assms have none: "filter (orphaned path_exists) es = []"
    by (auto simp: filter_empty_conv dest: has_file_not_orphaned)
  from assms n have "\<forall>e \<in> set (normalize_playlist_to_objects str_to_int
      (read_playlist (playlist_json (write_playlist True es s)))). answered path_exists e"
    by simp
  from dashboard_cleanup_answered [OF this] show ?thesis
    by (simp add: n none)
qed

lemma dashboard_cleanup_twice:
  assumes "\<forall>e \<in> set (normalize_playlist_to_objects str_to_int (read_playlist (playlist_json s))).
      answered path_exists e"
  shows "dashboard_cleanup str_to_int path_exists writable
       (snd (dashboard_cleanup str_to_int path_exists True s)) =
     (Inr [], snd (dashboard_cleanup str_to_int path_exists True s))"
proof (cases "filter (orphaned path_exists)
    (normalize_playlist_to_objects str_to_int (read_playlist (playlist_json s))) = []")
  case True
  with dashboard_cleanup_answered [OF assms] show ?thesis by simp
next
  case False
  from assms have "\<forall>e \<in> set (filter (has_file path_exists)
      (normalize_playlist_to_objects str_to_int (read_playlist (playlist_json s)))).
      has_file path_exists e \<and> answered path_exists e \<and> 1 \<le> entry_repeats e"
    by (auto dest: normalize_playlist_repeats_ge_1)
  from dashboard_cleanup_after_write [OF this, of str_to_int writable s] False
    dashboard_cleanup_answered [OF assms, of True]
  show ?thesis by simp
qed

text \<open>
  Claim C4, as the code has it. An ordering entry whose path exists under neither
  content directory adds nothing to the catalog the player resolves: the catalog is what
  the rest of the ordering resolves to, and it is empty, not the catalog of every file,
  when every entry of the ordering is such an entry. The player's pass changes nothing
  outside the slide cache, so the ordering file still holds the entry afterwards. It is
  the dashboard that prunes: \<open>filter_valid_playlist\<close> keeps the entries with a backing
  file and reports the name of every orphaned entry; the dashboard writes the kept
  entries back when something was removed and nothing otherwise, and after a write that
  succeeded a second cleanup removes nothing and writes nothing.
\<close>

theorem orphan_skipped_by_player_pruned_by_dashboard:
  "(orphaned path_exists e \<and> listed_exist path_exists s
      \<and> selected_entries str_to_int (playlist_json s) = before @ e # after \<longrightarrow>
      build_playlist_items str_to_int run s =
        resolve_selected run (get_video_files s) (get_presentation_files s) (before @ after) [] s)
   \<and> (selected_entries str_to_int (playlist_json s) \<noteq> []
      \<and> list_all (orphaned path_exists) (selected_entries str_to_int (playlist_json s))
      \<and> listed_exist path_exists s \<longrightarrow>
      build_playlist_items str_to_int run s = (Inr [], s))
   \<and> content_unchanged s (snd (build_playlist_items str_to_int run s))
   \<and> playlist_json (snd (build_playlist_items str_to_int run s)) = playlist_json s
   \<and> (let normalized = normalize_playlist_to_objects str_to_int (read_playlist (playlist_json s))
      in list_all (answered path_exists) normalized \<longrightarrow>
         filter_valid_playlist str_to_int path_exists (read_playlist (playlist_json s)) =
           Inr (filter (has_file path_exists) normalized,
                map entry_name (filter (orphaned path_exists) normalized))
         \<and> fst (dashboard_cleanup str_to_int path_exists writable s) =
             Inr (map entry_name (filter (orphaned path_exists) normalized))
         \<and> (filter (orphaned path_exists) normalized \<noteq> [] \<and> writable \<longrightarrow>
              playlist_json (snd (dashboard_cleanup str_to_int path_exists writable s)) =
                Some (Json (JList (map entry_json (filter (has_file path_exists) normalized)))))
         \<and> (filter (orphaned path_exists) normalized = [] \<longrightarrow>
              snd (dashboard_cleanup str_to_int path_exists writable s) = s)
         \<and> dashboard_cleanup str_to_int path_exists writable
               (snd (dashboard_cleanup str_to_int path_exists True s)) =
             (Inr [], snd (dashboard_cleanup str_to_int path_exists True s)))"
proof (intro conjI impI)
  assume "orphaned path_exists e \<and> listed_exist path_exists s
      \<and> selected_entries str_to_int (playlist_json s) = before @ e # after"
  then show "build_playlist_items str_to_int run s =
        resolve_selected run (get_video_files s) (get_presentation_files s) (before @ after) [] s"
    by (blast intro: build_playlist_items_skips_orphan)
next
  assume "selected_entries str_to_int (playlist_json s) \<noteq> []
      \<and> list_all (orphaned path_exists) (selected_entries str_to_int (playlist_json s))
      \<and> listed_exist path_exists s"
  then show "build_playlist_items str_to_int run s = (Inr [], s)"
    by (blast intro: build_playlist_items_only_orphans)
next
  show u: "content_unchanged s (snd (build_playlist_items str_to_int run s))"
    by (rule content_unchanged_build_playlist_items)
  then show "playlist_json (snd (build_playlist_items str_to_int run s)) = playlist_json s"
    by (simp add: content_unchanged_def)
next
  show "let normalized = normalize_playlist_to_objects str_to_int (read_playlist (playlist_json s))
      in list_all (answered path_exists) normalized \<longrightarrow>
         filter_valid_playlist str_to_int path_exists (read_playlist (playlist_json s)) =
           Inr (filter (has_file path_exists) normalized,
                map entry_name (filter (orphaned path_exists) normalized))
         \<and> fst (dashboard_cleanup str_to_int path_exists writable s) =
             Inr (map entry_name (filter (orphaned path_exists) normalized))
         \<and> (filter (orphaned path_exists) normalized \<noteq> [] \<and> writable \<longrightarrow>
              playlist_json (snd (dashboard_cleanup str_to_int path_exists writable s)) =
                Some (Json (JList (map entry_json (filter (has_file path_exists) normalized)))))
         \<and> (filter (orphaned path_exists) normalized = [] \<longrightarrow>
              snd (dashboard_cleanup str_to_int path_exists writable s) = s)
         \<and> dashboard_cleanup str_to_int path_exists writable
               (snd (dashboard_cleanup str_to_int path_exists True s)) =
             (Inr [], snd (dashboard_cleanup str_to_int path_exists True s))"
    unfolding Let_def
  proof (intro impI conjI)
    assume "list_all (answered path_exists) (normalize_playlist_to_objects str_to_int
        (read_playlist (playlist_json s)))"
    then have a: "\<forall>e \<in> set (normalize_playlist_to_objects str_to_int
        (read_playlist (playlist_json s))). answered path_exists e"
      by (simp add: list_all_iff)
    show "filter_valid_playlist str_to_int path_exists (read_playlist (playlist_json s)) =
        Inr (filter (has_file path_exists)
               (normalize_playlist_to_objects str_to_int (read_playlist (playlist_json s))),
             map entry_name (filter (orphaned path_exists)
               (normalize_playlist_to_objects str_to_int (read_playlist (playlist_json s)))))"
      using a by (rule filter_valid_playlist_answered)
    show "fst (dashboard_cleanup str_to_int path_exists writable s) =
        Inr (map entry_name (filter (orphaned path_exists)
               (normalize_playlist_to_objects str_to_int (read_playlist (playlist_json s)))))"
      by (simp add: dashboard_cleanup_answered [OF a])
    show "dashboard_cleanup str_to_int path_exists writable
            (snd (dashboard_cleanup str_to_int path_exists True s)) =
        (Inr [], snd (dashboard_cleanup str_to_int path_exists True s))"
      using a by (rule dashboard_cleanup_twice)
    show "snd (dashboard_cleanup str_to_int path_exists writable s) = s"
      if "filter (orphaned path_exists)
        (normalize_playlist_to_objects str_to_int (read_playlist (playlist_json s))) = []"
      using that by (simp add: dashboard_cleanup_answered [OF a])
    assume "filter (orphaned path_exists)
        (normalize_playlist_to_objects str_to_int (read_playlist (playlist_json s))) \<noteq> []
        \<and> writable"
    then show "playlist_json (snd (dashboard_cleanup str_to_int path_exists writable s)) =
        Some (Json (JList (map entry_json (filter (has_file path_exists)
          (normalize_playlist_to_objects str_to_int (read_playlist (playlist_json s)))))))"
      by (simp add: dashboard_cleanup_answered [OF a] write_playlist_def)
  qed
qed

lemma ghost_normalized:
  "normalize_playlist_to_objects (\<lambda>s. None) (read_playlist (playlist_json ghost_fs)) =
     [\<lparr>entry_name = JStr ''ghost.mp4'', entry_repeats = 1\<rparr>,
      \<lparr>entry_name = JStr ''a.mp4'', entry_repeats = 1\<rparr>]"
  by (simp add: ghost_fs_def blank_fs_def read_playlist_def normalize_playlist_to_objects_def
      normalize_entry_def)

lemma ghost_selected:
  "selected_entries (\<lambda>s. None) (playlist_json ghost_fs) =
     [\<lparr>entry_name = JStr ''ghost.mp4'', entry_repeats = 1\<rparr>,
      \<lparr>entry_name = JStr ''a.mp4'', entry_repeats = 1\<rparr>]"
  "selected_entries (\<lambda>s. None) (playlist_json only_ghost_fs) =
     [\<lparr>entry_name = JStr ''ghost.mp4'', entry_repeats = 1\<rparr>]"
  by (simp_all add: ghost_fs_def only_ghost_fs_def blank_fs_def selected_entries_def
      normalize_entry_def)

lemma ghost_files:
  "get_video_files ghost_fs = [''a.mp4'']" "get_presentation_files ghost_fs = []"
  "listing (videos_dir ghost_fs) = [''a.mp4'']" "listing (presentations_dir ghost_fs) = []"
  by (simp_all add: ghost_fs_def blank_fs_def listing_defs PPT_FORMATS_def PDF_FORMATS_def
      suffix_to_prefix)

lemma only_ghost_files:
  "get_video_files only_ghost_fs = [''a.mp4'']" "get_presentation_files only_ghost_fs = []"
  "listing (videos_dir only_ghost_fs) = [''a.mp4'']"
  "listing (presentations_dir only_ghost_fs) = []"
  by (simp_all add: only_ghost_fs_def blank_fs_def listing_defs PPT_FORMATS_def PDF_FORMATS_def
      suffix_to_prefix)

lemma ghost_classes:
  "orphaned ghost_paths \<lparr>entry_name = JStr ''ghost.mp4'', entry_repeats = 1\<rparr>"
  "\<not> has_file ghost_paths \<lparr>entry_name = JStr ''ghost.mp4'', entry_repeats = 1\<rparr>"
  "answered ghost_paths \<lparr>entry_name = JStr ''ghost.mp4'', entry_repeats = 1\<rparr>"
  "\<not> orphaned ghost_paths \<lparr>entry_name = JStr ''a.mp4'', entry_repeats = 1\<rparr>"
  "has_file ghost_paths \<lparr>entry_name = JStr ''a.mp4'', entry_repeats = 1\<rparr>"
  "answered ghost_paths \<lparr>entry_name = JStr ''a.mp4'', entry_repeats = 1\<rparr>"
  by (simp_all add: orphaned_def has_file_def answered_def ghost_paths_def VIDEOS_DIR_def
      PRESENTATIONS_DIR_def)

lemma ghost_listed:
  "listed_exist ghost_paths ghost_fs" "listed_exist ghost_paths only_ghost_fs"
  by (simp_all add: listed_exist_def ghost_files only_ghost_files ghost_paths_def)

text \<open>
  A name that is in no listing and yet names a path that exists is kept by the dashboard,
  and an answer that is an error ends the cleanup with that error.
\<close>

lemma filter_valid_playlist_keeps_existing_path:
  "filter_valid_playlist (\<lambda>s. None) ghost_paths (JList [JStr ''..'', JStr ''ghost.mp4'']) =
     Inr ([\<lparr>entry_name = JStr ''..'', entry_repeats = 1\<rparr>], [JStr ''ghost.mp4''])"
  by (simp add: filter_valid_playlist_def normalize_playlist_to_objects_def normalize_entry_def
      item_exists_def ghost_paths_def VIDEOS_DIR_def PRESENTATIONS_DIR_def)

lemma filter_valid_playlist_raises:
  "filter_valid_playlist (\<lambda>s. None) (\<lambda>dir name. Inl OSError) (JList [JStr ''a.mp4'']) = Inl OSError"
  by (simp add: filter_valid_playlist_def normalize_playlist_to_objects_def normalize_entry_def
      item_exists_def)

theorem orphan_skipped_by_player_pruned_by_dashboard_witness:
  "orphaned ghost_paths \<lparr>entry_name = JStr ''ghost.mp4'', entry_repeats = 1\<rparr>
   \<and> listed_exist ghost_paths ghost_fs
   \<and> selected_entries (\<lambda>s. None) (playlist_json ghost_fs) =
       [] @ \<lparr>entry_name = JStr ''ghost.mp4'', entry_repeats = 1\<rparr>
          # [\<lparr>entry_name = JStr ''a.mp4'', entry_repeats = 1\<rparr>]
   \<and> build_playlist_items (\<lambda>s. None) working_tool ghost_fs =
       (Inr [video_item ''a.mp4''], ghost_fs)
   \<and> selected_entries (\<lambda>s. None) (playlist_json only_ghost_fs) =
       [\<lparr>entry_name = JStr ''ghost.mp4'', entry_repeats = 1\<rparr>]
   \<and> listed_exist ghost_paths only_ghost_fs
   \<and> build_playlist_items (\<lambda>s. None) working_tool only_ghost_fs = (Inr [], only_ghost_fs)
   \<and> filter_valid_playlist (\<lambda>s. None) ghost_paths (read_playlist (playlist_json ghost_fs)) =
       Inr ([\<lparr>entry_name = JStr ''a.mp4'', entry_repeats = 1\<rparr>], [JStr ''ghost.mp4''])
   \<and> fst (dashboard_cleanup (\<lambda>s. None) ghost_paths True ghost_fs) = Inr [JStr ''ghost.mp4'']
   \<and> playlist_json (snd (dashboard_cleanup (\<lambda>s. None) ghost_paths True ghost_fs)) =
       Some (Json (JList [JObj [(''name'', JStr ''a.mp4''), (''repeats'', JInt 1)]]))
   \<and> dashboard_cleanup (\<lambda>s. None) ghost_paths True
         (snd (dashboard_cleanup (\<lambda>s. None) ghost_paths True ghost_fs)) =
       (Inr [], snd (dashboard_cleanup (\<lambda>s. None) ghost_paths True ghost_fs))"
proof -
  have rest: "resolve_selected working_tool [''a.mp4''] []
      ([] @ [\<lparr>entry_name = JStr ''a.mp4'', entry_repeats = 1\<rparr>]) [] ghost_fs
     = (Inr [video_item ''a.mp4''], ghost_fs)"
    by simp
  note player = orphan_skipped_by_player_pruned_by_dashboard
      [where e = "\<lparr>entry_name = JStr ''ghost.mp4'', entry_repeats = 1\<rparr>"
        and path_exists = ghost_paths and s = ghost_fs and run = working_tool and before = "[]"
        and after = "[\<lparr>entry_name = JStr ''a.mp4'', entry_repeats = 1\<rparr>]"
        and str_to_int = "\<lambda>s. None" and writable = True]
  note only = orphan_skipped_by_player_pruned_by_dashboard
      [where path_exists = ghost_paths and s = only_ghost_fs and run = working_tool
        and str_to_int = "\<lambda>s. None", THEN conjunct2, THEN conjunct1]
  from rest ghost_classes ghost_listed ghost_selected ghost_normalized ghost_files player only
  show ?thesis
    by (simp add: entry_json_def)
qed

theorem player_pass_keeps_orphan_counterexample:
  "orphaned ghost_paths \<lparr>entry_name = JStr ''ghost.mp4'', entry_repeats = 1\<rparr>
   \<and> listed_exist ghost_paths ghost_fs
   \<and> selected_entries (\<lambda>s. None) (playlist_json ghost_fs) =
       [\<lparr>entry_name = JStr ''ghost.mp4'', entry_repeats = 1\<rparr>,
        \<lparr>entry_name = JStr ''a.mp4'', entry_repeats = 1\<rparr>]
   \<and> build_playlist_items (\<lambda>s. None) working_tool ghost_fs = (Inr [video_item ''a.mp4''], ghost_fs)
   \<and> playlist_json (snd (build_playlist_items (\<lambda>s. None) working_tool ghost_fs)) =
       Some (Json (JList [JStr ''ghost.mp4'', JStr ''a.mp4'']))"
proof -
  have b: "build_playlist_items (\<lambda>s. None) working_tool ghost_fs
      = (Inr [video_item ''a.mp4''], ghost_fs)"
    by (simp add: build_playlist_items_def ghost_selected ghost_files)
  show ?thesis
    by (simp add: b ghost_classes ghost_listed ghost_selected) (simp add: ghost_fs_def blank_fs_def)
qed

subsection \<open>The controller's mailbox\<close>

lemma process_commands_object:
  assumes "signage_json (files c) = Some (Json (JObj data))"
  shows "process_commands_if_any env str_to_int run c =
     apply_action env str_to_int run (dict_get data ''action'')
       (c\<lparr>files := (files c)\<lparr>signage_json := None\<rparr>\<rparr>)"
  using assms by (simp add: process_commands_if_any_def)

lemma process_commands_unparseable:
  assumes "signage_json (files c) = Some Unparseable"
  shows "process_commands_if_any env str_to_int run c =
     c\<lparr>files := (files c)\<lparr>signage_json := None\<rparr>\<rparr>"
  using assms by (simp add: process_commands_if_any_def apply_action_def dict_get_def)

lemma process_commands_not_object:
  assumes "signage_json (files c) = Some (Json v)" and "\<nexists>data. v = JObj data"
  shows "process_commands_if_any env str_to_int run c = c"
  using assms by (cases v) (simp_all add: process_commands_if_any_def)

lemma files_send_signal [simp]: "files (send_signal env target c) = files c"
  by (simp add: send_signal_def split: option.splits)

lemma files_stop_vlc [simp]: "files (stop_vlc c) = files c"
  by (simp add: stop_vlc_def split: option.splits)

lemma files_start_vlc: "start_vlc env c = Inr c' \<Longrightarrow> files c' = files c"
  by (auto simp: start_vlc_def split: if_splits)

lemma apply_action_mailbox:
  "signage_json (files (apply_action env str_to_int run action c)) = signage_json (files c)"
proof -
  obtain r s1 where b: "build_playlist_items str_to_int run (files c) = (r, s1)"
    by (cases "build_playlist_items str_to_int run (files c)")
  from content_unchanged_build_playlist_items [of "files c" str_to_int run] b
  have "signage_json s1 = signage_json (files c)"
    by (simp add: content_unchanged_def)
  with b show ?thesis
    by (auto simp: apply_action_def Let_def create_playlist_def
        split: sum.splits dest: files_start_vlc)
qed

text \<open>
  What holds of the mailbox: when it holds a JSON object or a file that does not parse,
  the controller acts on files from which the mailbox file is already gone, and nothing
  it does while acting brings the file back.
\<close>

lemma mailbox_removed_for_object_or_unparseable:
  "(signage_json (files c) = Some Unparseable \<longrightarrow>
      process_commands_if_any env str_to_int run c =
        c\<lparr>files := (files c)\<lparr>signage_json := None\<rparr>\<rparr>)
   \<and> (signage_json (files c) = Some Unparseable \<or> signage_json (files c) = Some (Json (JObj data))
        \<longrightarrow> signage_json (files (process_commands_if_any env str_to_int run c)) = None)"
  by (auto simp: process_commands_unparseable process_commands_object apply_action_mailbox)

text \<open>
  Claim C7 asks that every message found in the mailbox, also an unusable one, is removed
  once it has been read. The code reads \<open>data.get('action')\<close> before it removes the file,
  and only a file that does not parse is replaced by \<open>{}\<close>: for a mailbox that holds a
  JSON value that is not an object, here the string \<open>"next"\<close>, the empty list and
  \<open>null\<close>, the poll ends in the outer \<open>except\<close> and leaves the controller and the file
  as they were, whatever the operating system allows.
\<close>

theorem mailbox_kept_for_non_object:
  "process_commands_if_any working_os (\<lambda>s. None) working_tool
      (playing_controller\<lparr>files := demo_fs\<lparr>signage_json := Some (Json (JStr ''next''))\<rparr>\<rparr>)
     = playing_controller\<lparr>files := demo_fs\<lparr>signage_json := Some (Json (JStr ''next''))\<rparr>\<rparr>
   \<and> signage_json (files (process_commands_if_any working_os (\<lambda>s. None) working_tool
      (playing_controller\<lparr>files := demo_fs\<lparr>signage_json := Some (Json (JStr ''next''))\<rparr>\<rparr>)))
     = Some (Json (JStr ''next''))
   \<and> signage_json (files (process_commands_if_any working_os (\<lambda>s. None) working_tool
      (playing_controller\<lparr>files := demo_fs\<lparr>signage_json := Some (Json (JList []))\<rparr>\<rparr>)))
     = Some (Json (JList []))
   \<and> signage_json (files (process_commands_if_any working_os (\<lambda>s. None) working_tool
      (playing_controller\<lparr>files := demo_fs\<lparr>signage_json := Some (Json JNull)\<rparr>\<rparr>)))
     = Some (Json JNull)"
  by (simp add: process_commands_if_any_def)

subsection \<open>The commands next and prev\<close>

lemma apply_action_rotates:
  assumes b: "build_playlist_items str_to_int run (files c) = (Inr items, s')"
    and ne: "items \<noteq> []" and ok: "popen_ok env"
    and a: "action = JStr ''next'' \<or> action = JStr ''prev''"
  shows "apply_action env str_to_int run action c =
     (stop_vlc (c\<lparr>files := s'\<lparr>playlist_m3u := Some (map m3u_of
            (if action = JStr ''next'' then tl items @ [hd items]
             else last items # butlast items))\<rparr>\<rparr>))
       \<lparr>processes := processes (stop_vlc (c\<lparr>files := s'\<rparr>))
            @ [\<lparr>proc_state = Playing, proc_playlist = Some (map m3u_of
                 (if action = JStr ''next'' then tl items @ [hd items]
                  else last items # butlast items))\<rparr>],
        the_player := (the_player (stop_vlc (c\<lparr>files := s'\<rparr>)))
            \<lparr>vlc_process := Some (length (processes c))\<rparr>\<rparr>"
  using a
  by (auto simp: apply_action_def b ne ok Let_def start_vlc_def stop_vlc_def is_vlc_running_def
      create_playlist_def rotate_next_def rotate_prev_def split: option.splits)

lemma stop_vlc_length [simp]: "length (processes (stop_vlc c)) = length (processes c)"
  by (simp add: stop_vlc_def split: option.splits)

lemma stop_vlc_own_process:
  assumes "vlc_process (the_player c) = Some pid" and "pid < length (processes c)"
  shows "proc_state (processes (stop_vlc c) ! pid) = Finished"
  using assms by (simp add: stop_vlc_def is_vlc_running_def)

lemma stop_vlc_other_process:
  assumes "vlc_process (the_player c) \<noteq> Some i"
  shows "processes (stop_vlc c) ! i = processes c ! i"
  using assms by (auto simp: stop_vlc_def split: option.splits)

lemma stop_vlc_flags [simp]:
  "pending_update (the_player (stop_vlc c)) = pending_update (the_player c)"
  "current_playlist_hash (the_player (stop_vlc c)) = current_playlist_hash (the_player c)"
  by (simp_all add: stop_vlc_def split: option.splits)

lemma apply_action_empty:
  assumes b: "build_playlist_items str_to_int run (files c) = (Inr [], s')"
    and a: "action = JStr ''next'' \<or> action = JStr ''prev''"
  shows "apply_action env str_to_int run action c = c\<lparr>files := s'\<rparr>"
  using a by (auto simp: apply_action_def b)

lemma send_signal_pending:
  "send_signal env target (c\<lparr>the_player := (the_player c)\<lparr>pending_update := flag\<rparr>\<rparr>)
     = (send_signal env target c)
         \<lparr>the_player := (the_player (send_signal env target c))\<lparr>pending_update := flag\<rparr>\<rparr>"
  by (simp add: send_signal_def is_vlc_running_def split: option.splits)

lemma stop_vlc_pending:
  "stop_vlc (c\<lparr>the_player := (the_player c)\<lparr>pending_update := flag\<rparr>\<rparr>)
     = (stop_vlc c)\<lparr>the_player := (the_player (stop_vlc c))\<lparr>pending_update := flag\<rparr>\<rparr>"
  by (simp add: stop_vlc_def is_vlc_running_def split: option.splits)

lemma start_vlc_pending:
  "start_vlc env (c\<lparr>the_player := (the_player c)\<lparr>pending_update := flag\<rparr>\<rparr>) =
     (case start_vlc env c of
        Inl err \<Rightarrow> Inl err
      | Inr c' \<Rightarrow> Inr (c'\<lparr>the_player := (the_player c')\<lparr>pending_update := flag\<rparr>\<rparr>))"
  by (simp add: start_vlc_def)

lemma apply_action_pending:
  "apply_action env str_to_int run action
       (c\<lparr>the_player := (the_player c)\<lparr>pending_update := flag\<rparr>\<rparr>) =
     (apply_action env str_to_int run action c)
       \<lparr>the_player := (the_player (apply_action env str_to_int run action c))
            \<lparr>pending_update := flag\<rparr>\<rparr>"
  by (simp add: apply_action_def Let_def send_signal_def stop_vlc_def start_vlc_def
      is_vlc_running_def split: prod.splits sum.splits option.splits)

lemma apply_action_restarts:
  assumes b: "build_playlist_items str_to_int run (files c) = (Inr items, s')"
    and ne: "items \<noteq> []" and ok: "popen_ok env"
    and a: "action = JStr ''next'' \<and> rotated = tl items @ [hd items]
       \<or> action = JStr ''prev'' \<and> rotated = last items # butlast items"
  shows "files (apply_action env str_to_int run action c) =
       s'\<lparr>playlist_m3u := Some (map m3u_of rotated)\<rparr>"
    and "processes (apply_action env str_to_int run action c) =
       processes (stop_vlc (c\<lparr>files := s'\<rparr>))
         @ [\<lparr>proc_state = Playing, proc_playlist = Some (map m3u_of rotated)\<rparr>]"
    and "vlc_process (the_player (apply_action env str_to_int run action c)) =
       Some (length (processes c))"
    and "pending_update (the_player (apply_action env str_to_int run action c)) =
       pending_update (the_player c)"
proof -
  from a have a': "action = JStr ''next'' \<or> action = JStr ''prev''" by blast
  from a have r: "(if action = JStr ''next'' then tl items @ [hd items]
      else last items # butlast items) = rotated"
    by auto
  note eq = apply_action_rotates [OF b ne ok a', unfolded r]
  show "files (apply_action env str_to_int run action c) =
       s'\<lparr>playlist_m3u := Some (map m3u_of rotated)\<rparr>"
    by (simp add: eq)
  show "processes (apply_action env str_to_int run action c) =
       processes (stop_vlc (c\<lparr>files := s'\<rparr>))
         @ [\<lparr>proc_state = Playing, proc_playlist = Some (map m3u_of rotated)\<rparr>]"
    by (simp add: eq)
  show "vlc_process (the_player (apply_action env str_to_int run action c)) =
       Some (length (processes c))"
    by (simp add: eq)
  show "pending_update (the_player (apply_action env str_to_int run action c)) =
       pending_update (the_player c)"
    by (simp add: eq)
qed

text \<open>
  Claim C9. When the freshly resolved content set is not empty and VLC can be started,
  \<open>next\<close> writes the playlist with the first item moved to the end and \<open>prev\<close> the
  playlist with the last item moved to the front; the process the controller held is
  ended, no other process is touched, and one new process plays the playlist just
  written and becomes the controller's process. The pending-update flag is neither read
  nor changed. On an empty content set the command changes neither the controller nor
  the processes nor the playlist file. The command arrives through the mailbox, which is
  emptied first.
\<close>

theorem next_prev_rotate_and_restart:
  "(build_playlist_items str_to_int run (files c) = (Inr items, s') \<and> items \<noteq> [] \<and> popen_ok env
      \<and> (action = JStr ''next'' \<and> rotated = tl items @ [hd items]
         \<or> action = JStr ''prev'' \<and> rotated = last items # butlast items) \<longrightarrow>
      files (apply_action env str_to_int run action c) =
        s'\<lparr>playlist_m3u := Some (map m3u_of rotated)\<rparr>
      \<and> length (processes (apply_action env str_to_int run action c)) = Suc (length (processes c))
      \<and> processes (apply_action env str_to_int run action c) ! length (processes c) =
          \<lparr>proc_state = Playing, proc_playlist = Some (map m3u_of rotated)\<rparr>
      \<and> vlc_process (the_player (apply_action env str_to_int run action c)) =
          Some (length (processes c))
      \<and> (\<forall>pid. vlc_process (the_player c) = Some pid \<and> pid < length (processes c) \<longrightarrow>
            proc_state (processes (apply_action env str_to_int run action c) ! pid) = Finished)
      \<and> (\<forall>i < length (processes c). vlc_process (the_player c) \<noteq> Some i \<longrightarrow>
            processes (apply_action env str_to_int run action c) ! i = processes c ! i)
      \<and> pending_update (the_player (apply_action env str_to_int run action c)) =
          pending_update (the_player c))
   \<and> (build_playlist_items str_to_int run (files c) = (Inr [], s')
        \<and> (action = JStr ''next'' \<or> action = JStr ''prev'') \<longrightarrow>
        apply_action env str_to_int run action c = c\<lparr>files := s'\<rparr>
        \<and> playlist_m3u s' = playlist_m3u (files c))
   \<and> apply_action env str_to_int run action
        (c\<lparr>the_player := (the_player c)\<lparr>pending_update := flag\<rparr>\<rparr>) =
       (apply_action env str_to_int run action c)
         \<lparr>the_player := (the_player (apply_action env str_to_int run action c))
              \<lparr>pending_update := flag\<rparr>\<rparr>
   \<and> (signage_json (files c) = Some (Json (JObj data)) \<longrightarrow>
        process_commands_if_any env str_to_int run c =
          apply_action env str_to_int run (dict_get data ''action'')
            (c\<lparr>files := (files c)\<lparr>signage_json := None\<rparr>\<rparr>))"
proof (intro conjI impI allI)
  assume a: "build_playlist_items str_to_int run (files c) = (Inr items, s') \<and> items \<noteq> []
      \<and> popen_ok env
      \<and> (action = JStr ''next'' \<and> rotated = tl items @ [hd items]
         \<or> action = JStr ''prev'' \<and> rotated = last items # butlast items)"
  then have b: "build_playlist_items str_to_int run (files c) = (Inr items, s')"
    and ne: "items \<noteq> []" and ok: "popen_ok env"
    and r: "action = JStr ''next'' \<and> rotated = tl items @ [hd items]
         \<or> action = JStr ''prev'' \<and> rotated = last items # butlast items"
    by simp_all
  note fs = apply_action_restarts(1) [OF b ne ok r]
  note ps = apply_action_restarts(2) [OF b ne ok r]
  show "files (apply_action env str_to_int run action c) =
        s'\<lparr>playlist_m3u := Some (map m3u_of rotated)\<rparr>"
    by (rule fs)
  show "length (processes (apply_action env str_to_int run action c)) = Suc (length (processes c))"
    by (simp add: ps)
  show "processes (apply_action env str_to_int run action c) ! length (processes c) =
          \<lparr>proc_state = Playing, proc_playlist = Some (map m3u_of rotated)\<rparr>"
    by (simp add: ps nth_append)
  show "vlc_process (the_player (apply_action env str_to_int run action c)) =
          Some (length (processes c))"
    by (rule apply_action_restarts(3) [OF b ne ok r])
  show "pending_update (the_player (apply_action env str_to_int run action c)) =
          pending_update (the_player c)"
    by (rule apply_action_restarts(4) [OF b ne ok r])
  show "proc_state (processes (apply_action env str_to_int run action c) ! pid) = Finished"
    if "vlc_process (the_player c) = Some pid \<and> pid < length (processes c)" for pid
    using that stop_vlc_own_process [of "c\<lparr>files := s'\<rparr>" pid]
    by (simp add: ps nth_append)
  show "processes (apply_action env str_to_int run action c) ! i = processes c ! i"
    if "i < length (processes c)" and "vlc_process (the_player c) \<noteq> Some i" for i
    using that stop_vlc_other_process [of "c\<lparr>files := s'\<rparr>" i]
    by (simp add: ps nth_append)
next
  assume a: "build_playlist_items str_to_int run (files c) = (Inr [], s')
        \<and> (action = JStr ''next'' \<or> action = JStr ''prev'')"
  then show "apply_action env str_to_int run action c = c\<lparr>files := s'\<rparr>"
    by (simp add: apply_action_empty)
  from a content_unchanged_build_playlist_items [of "files c" str_to_int run]
  show "playlist_m3u s' = playlist_m3u (files c)"
    by (simp add: content_unchanged_def)
next
  show "apply_action env str_to_int run action
        (c\<lparr>the_player := (the_player c)\<lparr>pending_update := flag\<rparr>\<rparr>) =
       (apply_action env str_to_int run action c)
         \<lparr>the_player := (the_player (apply_action env str_to_int run action c))
              \<lparr>pending_update := flag\<rparr>\<rparr>"
    by (rule apply_action_pending)
next
  assume "signage_json (files c) = Some (Json (JObj data))"
  then show "process_commands_if_any env str_to_int run c =
          apply_action env str_to_int run (dict_get data ''action'')
            (c\<lparr>files := (files c)\<lparr>signage_json := None\<rparr>\<rparr>)"
    by (rule process_commands_object)
qed

lemma demo_build:
  "build_playlist_items (\<lambda>s. None) working_tool demo_fs =
     (Inr [slide_item ''~/signage/cache/slides/deck/slide_000.png'',
           slide_item ''~/signage/cache/slides/deck/slide_001.png'',
           slide_item ''~/signage/cache/slides/deck/slide_000.png'',
           slide_item ''~/signage/cache/slides/deck/slide_001.png'',
           video_item ''a.mp4''], demo_fs)"
proof -
  have named: "\<forall>e \<in> set [\<lparr>entry_name = JStr ''deck.pdf'', entry_repeats = 2\<rparr>,
      \<lparr>entry_name = JStr ''a.mp4'', entry_repeats = 1\<rparr>]. string_named e"
    by (simp add: string_named_def)
  note r = resolve_selected_blocks [OF named, of working_tool "[''a.mp4'']" "[''deck.pdf'']" "[]" demo_fs]
  have r': "resolve_selected working_tool [''a.mp4''] [''deck.pdf'']
      [\<lparr>entry_name = JStr ''deck.pdf'', entry_repeats = 2\<rparr>,
       \<lparr>entry_name = JStr ''a.mp4'', entry_repeats = 1\<rparr>] [] demo_fs =
     (Inr [slide_item ''~/signage/cache/slides/deck/slide_000.png'',
           slide_item ''~/signage/cache/slides/deck/slide_001.png'',
           slide_item ''~/signage/cache/slides/deck/slide_000.png'',
           slide_item ''~/signage/cache/slides/deck/slide_001.png'',
           video_item ''a.mp4''], demo_fs)"
    unfolding r demo_blocks by simp
  show ?thesis
    by (simp add: build_playlist_items_def demo_selected demo_files r'
        del: resolve_selected.simps)
qed

lemma blank_build:
  "build_playlist_items str_to_int run blank_fs = (Inr [], blank_fs)"
  by (simp add: build_playlist_items_def selected_entries_def blank_fs_def listing_defs
      glob_formats_def PPT_FORMATS_def PDF_FORMATS_def)

theorem next_prev_rotate_and_restart_witness:
  "build_playlist_items (\<lambda>s. None) working_tool (files playing_controller) =
     (Inr [slide_item ''~/signage/cache/slides/deck/slide_000.png'',
           slide_item ''~/signage/cache/slides/deck/slide_001.png'',
           slide_item ''~/signage/cache/slides/deck/slide_000.png'',
           slide_item ''~/signage/cache/slides/deck/slide_001.png'',
           video_item ''a.mp4''], demo_fs)
   \<and> popen_ok working_os
   \<and> vlc_process (the_player playing_controller) = Some 0
   \<and> processes playing_controller = [\<lparr>proc_state = Playing, proc_playlist = None\<rparr>]
   \<and> files (apply_action working_os (\<lambda>s. None) working_tool (JStr ''next'') playing_controller) =
       demo_fs\<lparr>playlist_m3u := Some (map m3u_of
           [slide_item ''~/signage/cache/slides/deck/slide_001.png'',
            slide_item ''~/signage/cache/slides/deck/slide_000.png'',
            slide_item ''~/signage/cache/slides/deck/slide_001.png'',
            video_item ''a.mp4'',
            slide_item ''~/signage/cache/slides/deck/slide_000.png''])\<rparr>
   \<and> length (processes
         (apply_action working_os (\<lambda>s. None) working_tool (JStr ''next'') playing_controller)) = 2
   \<and> proc_state (processes
         (apply_action working_os (\<lambda>s. None) working_tool (JStr ''next'') playing_controller) ! 0)
       = Finished
   \<and> processes
         (apply_action working_os (\<lambda>s. None) working_tool (JStr ''next'') playing_controller) ! 1
       = \<lparr>proc_state = Playing, proc_playlist = Some (map m3u_of
           [slide_item ''~/signage/cache/slides/deck/slide_001.png'',
            slide_item ''~/signage/cache/slides/deck/slide_000.png'',
            slide_item ''~/signage/cache/slides/deck/slide_001.png'',
            video_item ''a.mp4'',
            slide_item ''~/signage/cache/slides/deck/slide_000.png''])\<rparr>
   \<and> vlc_process (the_player
         (apply_action working_os (\<lambda>s. None) working_tool (JStr ''next'') playing_controller))
       = Some 1
   \<and> files (apply_action working_os (\<lambda>s. None) working_tool (JStr ''prev'') playing_controller) =
       demo_fs\<lparr>playlist_m3u := Some (map m3u_of
           [video_item ''a.mp4'',
            slide_item ''~/signage/cache/slides/deck/slide_000.png'',
            slide_item ''~/signage/cache/slides/deck/slide_001.png'',
            slide_item ''~/signage/cache/slides/deck/slide_000.png'',
            slide_item ''~/signage/cache/slides/deck/slide_001.png''])\<rparr>
   \<and> proc_state (processes
         (apply_action working_os (\<lambda>s. None) working_tool (JStr ''prev'') playing_controller) ! 0)
       = Finished
   \<and> processes
         (apply_action working_os (\<lambda>s. None) working_tool (JStr ''prev'') playing_controller) ! 1
       = \<lparr>proc_state = Playing, proc_playlist = Some (map m3u_of
           [video_item ''a.mp4'',
            slide_item ''~/signage/cache/slides/deck/slide_000.png'',
            slide_item ''~/signage/cache/slides/deck/slide_001.png'',
            slide_item ''~/signage/cache/slides/deck/slide_000.png'',
            slide_item ''~/signage/cache/slides/deck/slide_001.png''])\<rparr>
   \<and> build_playlist_items (\<lambda>s. None) working_tool (files (playing_controller\<lparr>files := blank_fs\<rparr>))
       = (Inr [], blank_fs)
   \<and> apply_action working_os (\<lambda>s. None) working_tool (JStr ''next'')
         (playing_controller\<lparr>files := blank_fs\<rparr>)
       = playing_controller\<lparr>files := blank_fs\<rparr>
   \<and> process_commands_if_any working_os (\<lambda>s. None) working_tool
        (playing_controller\<lparr>files :=
           demo_fs\<lparr>signage_json := Some (Json (JObj [(''action'', JStr ''next'')]))\<rparr>\<rparr>)
     = apply_action working_os (\<lambda>s. None) working_tool (JStr ''next'')
        (playing_controller\<lparr>files := demo_fs\<lparr>signage_json := None\<rparr>\<rparr>)"
proof -
  have ok: "popen_ok working_os" by (simp add: working_os_def)
  have get: "dict_get [(''action'', JStr ''next'')] ''action'' = JStr ''next''"
    by (simp add: dict_get_def)
  have f: "files playing_controller = demo_fs"
    and v: "vlc_process (the_player playing_controller) = Some 0"
    and p: "processes playing_controller = [\<lparr>proc_state = Playing, proc_playlist = None\<rparr>]"
    by (simp_all add: playing_controller_def)
  note nxt = next_prev_rotate_and_restart
      [where str_to_int = "\<lambda>s. None" and run = working_tool and c = playing_controller
        and s' = demo_fs and env = working_os and action = "JStr ''next''"
        and items = "[slide_item ''~/signage/cache/slides/deck/slide_000.png'',
           slide_item ''~/signage/cache/slides/deck/slide_001.png'',
           slide_item ''~/signage/cache/slides/deck/slide_000.png'',
           slide_item ''~/signage/cache/slides/deck/slide_001.png'',
           video_item ''a.mp4'']"
        and rotated = "[slide_item ''~/signage/cache/slides/deck/slide_001.png'',
            slide_item ''~/signage/cache/slides/deck/slide_000.png'',
            slide_item ''~/signage/cache/slides/deck/slide_001.png'',
            video_item ''a.mp4'',
            slide_item ''~/signage/cache/slides/deck/slide_000.png'']",
        THEN conjunct1]
  note prv = next_prev_rotate_and_restart
      [where str_to_int = "\<lambda>s. None" and run = working_tool and c = playing_controller
        and s' = demo_fs and env = working_os and action = "JStr ''prev''"
        and items = "[slide_item ''~/signage/cache/slides/deck/slide_000.png'',
           slide_item ''~/signage/cache/slides/deck/slide_001.png'',
           slide_item ''~/signage/cache/slides/deck/slide_000.png'',
           slide_item ''~/signage/cache/slides/deck/slide_001.png'',
           video_item ''a.mp4'']"
        and rotated = "[video_item ''a.mp4'',
            slide_item ''~/signage/cache/slides/deck/slide_000.png'',
            slide_item ''~/signage/cache/slides/deck/slide_001.png'',
            slide_item ''~/signage/cache/slides/deck/slide_000.png'',
            slide_item ''~/signage/cache/slides/deck/slide_001.png'']",
        THEN conjunct1]
  note emp = next_prev_rotate_and_restart
      [where str_to_int = "\<lambda>s. None" and run = working_tool
        and c = "playing_controller\<lparr>files := blank_fs\<rparr>"
        and s' = blank_fs and env = working_os and action = "JStr ''next''",
        THEN conjunct2, THEN conjunct1]
  note box = next_prev_rotate_and_restart
      [where str_to_int = "\<lambda>s. None" and run = working_tool and env = working_os
        and c = "playing_controller\<lparr>files :=
           demo_fs\<lparr>signage_json := Some (Json (JObj [(''action'', JStr ''next'')]))\<rparr>\<rparr>"
        and data = "[(''action'', JStr ''next'')]",
        THEN conjunct2, THEN conjunct2, THEN conjunct2]
  from ok get demo_build blank_build [of "\<lambda>s. None" working_tool] nxt prv emp box
  show ?thesis
    by (simp add: f v p)
qed

end
